theory Spec2Isabelle
  imports Complex_Main "HOL-Library.Log_Nat"
begin

section \<open>JavaScript values, plain objects and Maps\<close>

text \<open>
  The client (\<^verbatim>\<open>src/tradingClient.js\<close>, class \<^verbatim>\<open>TradingClient\<close>) keeps four
  JavaScript \<^verbatim>\<open>Map\<close>s of plain objects. A primitive value is a \<open>jsval\<close>; a finite
  number is the rational it denotes (NaN and the infinities do not occur in the
  functions modelled here). A plain object is a finite map from property names to
  values. A \<^verbatim>\<open>Map\<close> is an association list in insertion order with distinct keys:
  \<^verbatim>\<open>Map.prototype.set\<close> replaces the value of a key that is present, in place, and
  appends a key that is new; \<^verbatim>\<open>values()\<close> lists the values in that order.
  Every object the client stores is created fresh (an object literal or a spread), so no
  two entries share an object and value semantics is exact.
\<close>

datatype jsval = JUndefined | JNull | JBool bool | JNum rat | JStr string

type_synonym jsobj = "string \<rightharpoonup> jsval"

type_synonym jsmap = "(jsval \<times> jsobj) list"

text \<open>Property read \<^verbatim>\<open>o.f\<close>: a missing property reads as \<^verbatim>\<open>undefined\<close>.\<close>

definition getp :: "jsobj \<Rightarrow> string \<Rightarrow> jsval" where
  "getp ob f = (case ob f of None \<Rightarrow> JUndefined | Some v \<Rightarrow> v)"

text \<open>
  The object literal \<^verbatim>\<open>{...a, ...b}\<close>, where \<open>a\<close> is the result of \<^verbatim>\<open>Map.get\<close>
  (spreading \<^verbatim>\<open>undefined\<close> adds nothing): the properties of \<open>b\<close> override those of \<open>a\<close>.
\<close>

definition spread :: "jsobj option \<Rightarrow> jsobj \<Rightarrow> jsobj" where
  "spread a b = (case a of None \<Rightarrow> Map.empty | Some x \<Rightarrow> x) ++ b"

fun Map_set :: "jsmap \<Rightarrow> jsval \<Rightarrow> jsobj \<Rightarrow> jsmap" where
  "Map_set [] k v = [(k, v)]"
| "Map_set ((k', v') # m) k v =
     (if k' = k then (k, v) # m else (k', v') # Map_set m k v)"

definition Map_get :: "jsmap \<Rightarrow> jsval \<Rightarrow> jsobj option" where
  "Map_get m k = map_of m k"

definition Map_values :: "jsmap \<Rightarrow> jsobj list" where
  "Map_values m = map snd m"

text \<open>An exception is a value: \<^verbatim>\<open>new Error(message)\<close>.\<close>

datatype js_error = Error string

section \<open>Decimal strings and numbers\<close>

text \<open>
  \<^verbatim>\<open>Number.prototype.toString\<close> and string concatenation of a non-negative integer
  below \<open>10^21\<close> (here \<^verbatim>\<open>Date.now()\<close>) give its decimal digits.
\<close>

definition digit_char :: "nat \<Rightarrow> char" where
  "digit_char d =
     (if d = 0 then CHR ''0'' else if d = 1 then CHR ''1'' else if d = 2 then CHR ''2''
      else if d = 3 then CHR ''3'' else if d = 4 then CHR ''4'' else if d = 5 then CHR ''5''
      else if d = 6 then CHR ''6'' else if d = 7 then CHR ''7'' else if d = 8 then CHR ''8''
      else CHR ''9'')"

fun string_of_nat :: "nat \<Rightarrow> string" where
  "string_of_nat n =
     (if n < 10 then [digit_char n] else string_of_nat (n div 10) @ [digit_char (n mod 10)])"

declare string_of_nat.simps [simp del]

definition digit_val :: "char \<Rightarrow> nat option" where
  "digit_val ch =
     (if ch = CHR ''0'' then Some 0 else if ch = CHR ''1'' then Some 1
      else if ch = CHR ''2'' then Some 2 else if ch = CHR ''3'' then Some 3
      else if ch = CHR ''4'' then Some 4 else if ch = CHR ''5'' then Some 5
      else if ch = CHR ''6'' then Some 6 else if ch = CHR ''7'' then Some 7
      else if ch = CHR ''8'' then Some 8 else if ch = CHR ''9'' then Some 9 else None)"

definition is_digit :: "char \<Rightarrow> bool" where
  "is_digit ch = (digit_val ch \<noteq> None)"

text \<open>The value of a string of decimal digits (\<^verbatim>\<open>BigNumber.from\<close> on such a string).\<close>

definition nat_of_digits :: "string \<Rightarrow> nat" where
  "nat_of_digits ds = foldl (\<lambda>a ch. 10 * a + (case digit_val ch of Some d \<Rightarrow> d | None \<Rightarrow> 0)) 0 ds"

fun strip_zeros :: "string \<Rightarrow> string" where
  "strip_zeros [] = []"
| "strip_zeros (ch # cs) =
     (case strip_zeros cs of
        [] \<Rightarrow> (if ch = CHR ''0'' then [] else [ch])
      | r # rs \<Rightarrow> ch # r # rs)"

text \<open>
  \<^verbatim>\<open>ethers.utils.parseUnits(value, decimals)\<close> of the \<^verbatim>\<open>ethers\<close> library (version 5,
  not part of this repository), as the client calls it: a decimal string
  \<^verbatim>\<open>-?[0-9.]+\<close> with at most one point and at most \<open>decimals\<close> significant fraction
  digits becomes the integer number of smallest units; anything else throws.
  \<open>parse_magnitude\<close> reads the string after the sign. The library pads the fraction
  with zeros to \<open>decimals\<close> digits before reading it, which multiplies its value by the
  power of ten written here. The library's message texts are abbreviated.
\<close>

definition parse_magnitude :: "string \<Rightarrow> nat \<Rightarrow> js_error + nat" where
  "parse_magnitude body decimals =
     (if body = [] \<or> \<not> list_all (\<lambda>ch. is_digit ch \<or> ch = CHR ''.'') body
        then Inl (Error ''invalid decimal value'')
      else if body = ''.'' then Inl (Error ''missing value'')
      else if 1 < length (filter (\<lambda>ch. ch = CHR ''.'') body)
        then Inl (Error ''too many decimal points'')
      else
        let whole = takeWhile (\<lambda>ch. ch \<noteq> CHR ''.'') body;
            fraction = strip_zeros (drop 1 (dropWhile (\<lambda>ch. ch \<noteq> CHR ''.'') body))
        in if decimals < length fraction
             then Inl (Error ''fractional component exceeds decimals'')
           else Inr (nat_of_digits whole * 10 ^ decimals
                      + nat_of_digits fraction * 10 ^ (decimals - length fraction)))"

definition parseUnits :: "string \<Rightarrow> nat \<Rightarrow> js_error + int" where
  "parseUnits s decimals =
     (let negative = (take 1 s = ''-'');
          body = (if negative then drop 1 s else s)
      in case parse_magnitude body decimals of
           Inl e \<Rightarrow> Inl e
         | Inr wei \<Rightarrow> Inr (if negative then - int wei else int wei))"

text \<open>
  \<^verbatim>\<open>ethers.utils.formatUnits(value, decimals)\<close> of the same library: whole part, a point,
  and the fraction padded to \<open>decimals\<close> digits with its trailing zeros removed (one
  digit is always kept); for \<open>decimals = 0\<close> the whole part alone; a minus sign before
  a negative value.
\<close>

definition format_fraction :: "nat \<Rightarrow> nat \<Rightarrow> string" where
  "format_fraction a decimals =
     (case strip_zeros (replicate (decimals - length (string_of_nat (a mod 10 ^ decimals))) CHR ''0''
                          @ string_of_nat (a mod 10 ^ decimals)) of
        [] \<Rightarrow> ''0''
      | r # rs \<Rightarrow> r # rs)"

definition format_body :: "nat \<Rightarrow> nat \<Rightarrow> string" where
  "format_body a decimals =
     (if decimals = 0 then string_of_nat (a div 10 ^ decimals)
      else string_of_nat (a div 10 ^ decimals) @ ''.'' @ format_fraction a decimals)"

definition formatUnits :: "int \<Rightarrow> nat \<Rightarrow> string" where
  "formatUnits v decimals =
     (if v < 0 then ''-'' @ format_body (nat \<bar>v\<bar>) decimals else format_body (nat \<bar>v\<bar>) decimals)"

text \<open>
  JavaScript numbers are IEEE 754 binary64 values. A finite one is the rational it
  denotes, and an arithmetic operation returns the exact result rounded to the nearest
  value with a 53-bit significand, ties to the even significand. \<open>ilog2 x\<close> is the
  binary exponent of a positive \<open>x\<close> (\<open>2^e \<le> x < 2^(e+1)\<close>). The exponent range is not
  modelled: every result below lies in the normal range (between \<open>2^-1022\<close> and
  \<open>2^1024\<close>) or is zero, and no divisor is zero.
\<close>

definition rnd_even :: "rat \<Rightarrow> int" where
  "rnd_even q =
     (let f = \<lfloor>q\<rfloor>; r = q - of_int f
      in if r < 1 / 2 then f else if 1 / 2 < r then f + 1 else if even f then f else f + 1)"

definition ilog2 :: "rat \<Rightarrow> int" where
  "ilog2 x =
     (let k = bitlen (fst (quotient_of x)) - bitlen (snd (quotient_of x))
      in if 2 powi k \<le> x then k else k - 1)"

definition to_double :: "rat \<Rightarrow> rat" where
  "to_double x =
     (if x = 0 then 0
      else let u = 2 powi (ilog2 \<bar>x\<bar> - 52)
           in sgn x * of_int (rnd_even (\<bar>x\<bar> / u)) * u)"

definition js_div :: "rat \<Rightarrow> rat \<Rightarrow> rat" where
  "js_div a b = to_double (a / b)"

definition js_mul :: "rat \<Rightarrow> rat \<Rightarrow> rat" where
  "js_mul a b = to_double (a * b)"

text \<open>\<^verbatim>\<open>Math.round\<close>: the nearest integer, a tie going up.\<close>

definition Math_round :: "rat \<Rightarrow> rat" where
  "Math_round x = of_int \<lfloor>x + 1 / 2\<rfloor>"

section \<open>The client state\<close>

text \<open>
  The fields of \<^verbatim>\<open>TradingClient\<close> that the modelled methods read or write.
  \<open>wallet\<close> is the truthiness of \<^verbatim>\<open>this.wallet\<close>. \<open>sent\<close> is not a field of the class:
  it lists, in order, the state-changing contract calls the client has issued, which
  in the source are effects on the chain.
\<close>

record order_params =
  op_market :: jsval
  op_side :: int
  op_orderType :: int
  op_price :: int
  op_amount :: int
  op_leverage :: rat
  op_reduceOnly :: bool
  op_timeInForce :: int
  op_stopPrice :: int
  op_clientOrderId :: string

datatype chain_call =
    CreateOrderCall order_params
  | CancelOrderCall jsval
  | UpdateLeverageCall jsval rat

record client =
  network :: string
  wallet :: bool
  positions :: jsmap
  orders :: jsmap
  balances :: jsmap
  markets :: jsmap
  sent :: "chain_call list"

definition evm_networks :: "string list" where
  "evm_networks = [''ethereum'', ''arbitrum'', ''optimism'', ''bnb'']"

section \<open>Enumeration helpers\<close>

text \<open>
  \<^verbatim>\<open>getOrderTypeId\<close> returns \<^verbatim>\<open>typeMap[typeName] || 1\<close>: the table entry when it is
  truthy, else 1. The entry of \<^verbatim>\<open>'market'\<close> is 0, which is falsy. (Names of
  \<^verbatim>\<open>Object.prototype\<close> members such as \<^verbatim>\<open>'toString'\<close> are outside this model.)
\<close>

definition typeMap :: "string \<rightharpoonup> int" where
  "typeMap = [''market'' \<mapsto> 0, ''limit'' \<mapsto> 1, ''stop'' \<mapsto> 2, ''stopLimit'' \<mapsto> 3,
     ''trailingStop'' \<mapsto> 4]"

definition getOrderTypeId :: "string \<Rightarrow> int" where
  "getOrderTypeId typeName =
     (case typeMap typeName of None \<Rightarrow> 1 | Some i \<Rightarrow> if i = 0 then 1 else i)"

text \<open>
  \<^verbatim>\<open>typeNames[typeId] || 'unknown'\<close>: an index outside the array reads
  \<^verbatim>\<open>undefined\<close>, which is falsy; every name in the array is a non-empty string, truthy.
\<close>

definition typeNames :: "string list" where
  "typeNames = [''market'', ''limit'', ''stop'', ''stopLimit'', ''trailingStop'']"

definition getOrderTypeName :: "int \<Rightarrow> string" where
  "getOrderTypeName typeId =
     (if 0 \<le> typeId \<and> typeId < int (length typeNames) then typeNames ! nat typeId
      else ''unknown'')"

definition timeInForceMap :: "string \<rightharpoonup> int" where
  "timeInForceMap = [''GTC'' \<mapsto> 0, ''IOC'' \<mapsto> 1, ''FOK'' \<mapsto> 2, ''GTD'' \<mapsto> 3]"

definition getTimeInForceId :: "string \<Rightarrow> int" where
  "getTimeInForceId name =
     (case timeInForceMap name of None \<Rightarrow> 0 | Some i \<Rightarrow> if i = 0 then 0 else i)"

definition statusNames :: "string list" where
  "statusNames = [''open'', ''filled'', ''canceled'', ''expired'', ''rejected'']"

definition getOrderStatusName :: "int \<Rightarrow> string" where
  "getOrderStatusName statusId =
     (if 0 \<le> statusId \<and> statusId < int (length statusNames) then statusNames ! nat statusId
      else ''unknown'')"

section \<open>Local merges and the push-message handler\<close>

definition updateOrder :: "jsobj \<Rightarrow> client \<Rightarrow> client" where
  "updateOrder orderData c =
     c\<lparr>orders := Map_set (orders c) (getp orderData ''id'')
          (spread (Map_get (orders c) (getp orderData ''id'')) orderData)\<rparr>"

definition updatePosition :: "jsobj \<Rightarrow> client \<Rightarrow> client" where
  "updatePosition positionData c =
     c\<lparr>positions := Map_set (positions c) (getp positionData ''id'')
          (spread (Map_get (positions c) (getp positionData ''id'')) positionData)\<rparr>"

definition updateBalance :: "jsobj \<Rightarrow> client \<Rightarrow> client" where
  "updateBalance balanceData c =
     c\<lparr>balances := Map_set (balances c) (getp balanceData ''token'')
          (spread (Map_get (balances c) (getp balanceData ''token'')) balanceData)\<rparr>"

definition updateMarket :: "jsobj \<Rightarrow> client \<Rightarrow> client" where
  "updateMarket marketData c =
     c\<lparr>markets := Map_set (markets c) (getp marketData ''symbol'')
          (spread (Map_get (markets c) (getp marketData ''symbol'')) marketData)\<rparr>"

text \<open>
  A decoded push message \<^verbatim>\<open>{type, data}\<close> whose \<open>data\<close> is an object. The
  \<^verbatim>\<open>switch\<close> has no default branch: any other type leaves the client as it is.
\<close>

record message =
  msg_type :: string
  msg_data :: jsobj

definition handleWebSocketMessage :: "message \<Rightarrow> client \<Rightarrow> client" where
  "handleWebSocketMessage m c =
     (if msg_type m = ''order_update'' then updateOrder (msg_data m) c
      else if msg_type m = ''position_update'' then updatePosition (msg_data m) c
      else if msg_type m = ''balance_update'' then updateBalance (msg_data m) c
      else if msg_type m = ''market_update'' then updateMarket (msg_data m) c
      else c)"

section \<open>Orders: create, cancel, leverage\<close>

text \<open>
  The two leverage conversions, as the source writes them inline:
  \<^verbatim>\<open>position.leverage / 100\<close> in \<^verbatim>\<open>fetchPositions\<close> and
  \<^verbatim>\<open>Math.round(newLeverage * 100)\<close> in \<^verbatim>\<open>updatePositionLeverage\<close> (and, with
  \<^verbatim>\<open>leverage\<close>, in \<^verbatim>\<open>createOrder\<close>). The basis points of a position are a
  non-negative integer that the number type holds exactly.
\<close>

definition leverage_of_bp :: "nat \<Rightarrow> rat" where
  "leverage_of_bp bp = js_div (of_nat bp) 100"

definition bp_of_leverage :: "rat \<Rightarrow> rat" where
  "bp_of_leverage l = Math_round (js_mul l 100)"

text \<open>
  What the outside world answers is an argument of each operation. For a write, the
  answer of the contract call, of \<^verbatim>\<open>tx.wait()\<close> and of the receipt lookup is one
  value: the first exception, or the result. A receipt carries the transaction hash and
  its logs as \<^verbatim>\<open>parseLog\<close> reads them: \<open>None\<close> for a log that \<^verbatim>\<open>parseLog\<close> rejects (the
  inner \<^verbatim>\<open>catch\<close> maps it to \<^verbatim>\<open>null\<close>), else the event name with
  \<^verbatim>\<open>args.orderId.toString()\<close>.
\<close>

record tx_receipt =
  tx_hash :: string
  tx_logs :: "(string \<times> string) option list"

record create_world =
  cw_now0 :: nat
  cw_submit :: "js_error + tx_receipt"
  cw_now1 :: nat

text \<open>
  The parameter object of \<^verbatim>\<open>createOrder\<close>, with the documented shape: the first five
  properties are strings, an optional property is \<open>None\<close> when it is
  \<^verbatim>\<open>undefined\<close> (the destructuring default then applies).
\<close>

record order_request =
  market :: string
  side :: string
  otype :: string
  price :: string
  amount :: string
  leverage :: "rat option"
  reduceOnly :: "bool option"
  timeInForce :: "string option"
  stopPrice :: "string option"
  clientOrderId :: "string option"

definition find_OrderCreated :: "(string \<times> string) option list \<Rightarrow> string" where
  "find_OrderCreated logs =
     (case find (\<lambda>ev. case ev of None \<Rightarrow> False | Some (name, _) \<Rightarrow> name = ''OrderCreated'') logs of
        Some (Some (_, orderId)) \<Rightarrow> orderId
      | _ \<Rightarrow> ''pending'')"

definition newOrder_of :: "string \<Rightarrow> order_request \<Rightarrow> nat \<Rightarrow> string \<Rightarrow> jsobj" where
  "newOrder_of orderId p now txh =
     [''id'' \<mapsto> JStr orderId, ''market'' \<mapsto> JStr (market p), ''side'' \<mapsto> JStr (side p),
      ''type'' \<mapsto> JStr (otype p), ''price'' \<mapsto> JStr (price p), ''amount'' \<mapsto> JStr (amount p),
      ''filled'' \<mapsto> JStr ''0'', ''status'' \<mapsto> JStr ''open'', ''timestamp'' \<mapsto> JNum (of_nat now),
      ''txHash'' \<mapsto> JStr txh]"

text \<open>The body of the \<^verbatim>\<open>try\<close> block of \<^verbatim>\<open>createOrder\<close>.\<close>

definition createOrder_try ::
    "create_world \<Rightarrow> order_request \<Rightarrow> client \<Rightarrow> (js_error + jsobj option) \<times> client" where
  "createOrder_try w p c =
     (if network c \<in> set evm_networks then
        (case Map_get (markets c) (JStr (market p)) of
           None \<Rightarrow> (Inl (Error (''Market '' @ market p @ '' not found'')), c)
         | Some marketInfo \<Rightarrow>
            (case parseUnits (price p) 8 of
               Inl e \<Rightarrow> (Inl e, c)
             | Inr priceU \<Rightarrow>
            (case parseUnits (amount p) 18 of
               Inl e \<Rightarrow> (Inl e, c)
             | Inr amountU \<Rightarrow>
            (case (case stopPrice p of
                     None \<Rightarrow> Inr 0
                   | Some sp \<Rightarrow> if sp = [] then Inr 0 else parseUnits sp 8) of
               Inl e \<Rightarrow> (Inl e, c)
             | Inr stopU \<Rightarrow>
                let orderParams = \<lparr>
                      op_market = getp marketInfo ''address'',
                      op_side = (if side p = ''buy'' then 0 else 1),
                      op_orderType = getOrderTypeId (otype p),
                      op_price = priceU,
                      op_amount = amountU,
                      op_leverage =
                        bp_of_leverage (case leverage p of None \<Rightarrow> 1 | Some l \<Rightarrow> l),
                      op_reduceOnly = (case reduceOnly p of None \<Rightarrow> False | Some b \<Rightarrow> b),
                      op_timeInForce =
                        getTimeInForceId (case timeInForce p of None \<Rightarrow> ''GTC'' | Some t \<Rightarrow> t),
                      op_stopPrice = stopU,
                      op_clientOrderId =
                        (case clientOrderId p of None \<Rightarrow> string_of_nat (cw_now0 w) | Some i \<Rightarrow> i)\<rparr>;
                    c1 = c\<lparr>sent := sent c @ [CreateOrderCall orderParams]\<rparr>
                in (case cw_submit w of
                      Inl e \<Rightarrow> (Inl e, c1)
                    | Inr receipt \<Rightarrow>
                       let orderId = find_OrderCreated (tx_logs receipt);
                           newOrder = newOrder_of orderId p (cw_now1 w) (tx_hash receipt)
                       in (Inr (Some newOrder),
                           c1\<lparr>orders := Map_set (orders c1) (JStr orderId) newOrder\<rparr>))))))
      else if network c = ''solana'' then
        (Inr (Some [''id'' \<mapsto> JStr (''solana-'' @ string_of_nat (cw_now1 w)),
                    ''market'' \<mapsto> JStr (market p), ''side'' \<mapsto> JStr (side p),
                    ''type'' \<mapsto> JStr (otype p), ''price'' \<mapsto> JStr (price p),
                    ''amount'' \<mapsto> JStr (amount p), ''status'' \<mapsto> JStr ''open'']), c)
      else (Inr None, c))"

text \<open>
  \<^verbatim>\<open>createOrder\<close>: the wallet check stands before the \<^verbatim>\<open>try\<close>; the \<^verbatim>\<open>catch\<close>
  rethrows every exception of the body as
  \<^verbatim>\<open>new Error(`Failed to create order: ${error.message}`)\<close>. The result \<open>Inr None\<close> is
  the \<^verbatim>\<open>undefined\<close> that the function returns on a network of neither branch.
\<close>

definition createOrder ::
    "create_world \<Rightarrow> order_request \<Rightarrow> client \<Rightarrow> (js_error + jsobj option) \<times> client" where
  "createOrder w p c =
     (if \<not> wallet c then (Inl (Error ''Wallet not connected''), c)
      else (case createOrder_try w p c of
              (Inl (Error msg), c') \<Rightarrow> (Inl (Error (''Failed to create order: '' @ msg)), c')
            | (Inr r, c') \<Rightarrow> (Inr r, c')))"

text \<open>
  \<^verbatim>\<open>cancelOrder\<close>. \<open>w\<close> answers \<^verbatim>\<open>exchangeContract.cancelOrder(orderId)\<close> and
  \<^verbatim>\<open>tx.wait()\<close>: an exception or the transaction hash. The local record is touched only
  under \<^verbatim>\<open>if (order)\<close>.
\<close>

definition cancelOrder_try ::
    "(js_error + string) \<Rightarrow> jsval \<Rightarrow> client \<Rightarrow> (js_error + jsobj option) \<times> client" where
  "cancelOrder_try w orderId c =
     (if network c \<in> set evm_networks then
        let c1 = c\<lparr>sent := sent c @ [CancelOrderCall orderId]\<rparr>
        in (case w of
              Inl e \<Rightarrow> (Inl e, c1)
            | Inr txh \<Rightarrow>
               let c2 = (case Map_get (orders c1) orderId of
                           None \<Rightarrow> c1
                         | Some order \<Rightarrow>
                            c1\<lparr>orders := Map_set (orders c1) orderId
                                  (order(''status'' \<mapsto> JStr ''canceled''))\<rparr>)
               in (Inr (Some [''success'' \<mapsto> JBool True, ''orderId'' \<mapsto> orderId,
                              ''txHash'' \<mapsto> JStr txh]), c2))
      else if network c = ''solana'' then
        (Inr (Some [''success'' \<mapsto> JBool True, ''orderId'' \<mapsto> orderId]), c)
      else (Inr None, c))"

definition cancelOrder ::
    "(js_error + string) \<Rightarrow> jsval \<Rightarrow> client \<Rightarrow> (js_error + jsobj option) \<times> client" where
  "cancelOrder w orderId c =
     (if \<not> wallet c then (Inl (Error ''Wallet not connected''), c)
      else (case cancelOrder_try w orderId c of
              (Inl (Error msg), c') \<Rightarrow> (Inl (Error (''Failed to cancel order: '' @ msg)), c')
            | (Inr r, c') \<Rightarrow> (Inr r, c')))"

definition updatePositionLeverage_try ::
    "(js_error + string) \<Rightarrow> jsval \<Rightarrow> rat \<Rightarrow> client \<Rightarrow> (js_error + jsobj option) \<times> client" where
  "updatePositionLeverage_try w positionId newLeverage c =
     (if network c \<in> set evm_networks then
        let c1 = c\<lparr>sent := sent c @ [UpdateLeverageCall positionId (bp_of_leverage newLeverage)]\<rparr>
        in (case w of
              Inl e \<Rightarrow> (Inl e, c1)
            | Inr txh \<Rightarrow>
               let c2 = (case Map_get (positions c1) positionId of
                           None \<Rightarrow> c1
                         | Some position \<Rightarrow>
                            c1\<lparr>positions := Map_set (positions c1) positionId
                                  (position(''leverage'' \<mapsto> JNum newLeverage))\<rparr>)
               in (Inr (Some [''success'' \<mapsto> JBool True, ''positionId'' \<mapsto> positionId,
                              ''leverage'' \<mapsto> JNum newLeverage, ''txHash'' \<mapsto> JStr txh]), c2))
      else if network c = ''solana'' then
        (Inr (Some [''success'' \<mapsto> JBool True, ''positionId'' \<mapsto> positionId,
                    ''leverage'' \<mapsto> JNum newLeverage]), c)
      else (Inr None, c))"

definition updatePositionLeverage ::
    "(js_error + string) \<Rightarrow> jsval \<Rightarrow> rat \<Rightarrow> client \<Rightarrow> (js_error + jsobj option) \<times> client" where
  "updatePositionLeverage w positionId newLeverage c =
     (if \<not> wallet c then (Inl (Error ''Wallet not connected''), c)
      else (case updatePositionLeverage_try w positionId newLeverage c of
              (Inl (Error msg), c') \<Rightarrow> (Inl (Error (''Failed to update leverage: '' @ msg)), c')
            | (Inr r, c') \<Rightarrow> (Inr r, c')))"

section \<open>Fetching markets, balances, positions and open orders\<close>

text \<open>
  Each fetch is a \<^verbatim>\<open>try\<close> body and a \<^verbatim>\<open>catch\<close> that logs and returns \<^verbatim>\<open>[]\<close>.
  \<^verbatim>\<open>fetchMarkets\<close>: \<open>resp\<close> answers the HTTP request and \<^verbatim>\<open>response.json()\<close>, with
  the list of market objects or with the first exception (a response that is not a
  list makes \<^verbatim>\<open>forEach\<close> throw, and counts as one).
\<close>

definition fetchMarkets_try ::
    "(js_error + jsobj list) \<Rightarrow> client \<Rightarrow> (js_error + jsobj list) \<times> client" where
  "fetchMarkets_try resp c =
     (case resp of
        Inl e \<Rightarrow> (Inl e, c)
      | Inr ms \<Rightarrow>
         let c' = c\<lparr>markets := foldl (\<lambda>m mk. Map_set m (getp mk ''symbol'') mk) (markets c) ms\<rparr>
         in (Inr (Map_values (markets c')), c'))"

definition fetchMarkets :: "(js_error + jsobj list) \<Rightarrow> client \<Rightarrow> jsobj list \<times> client" where
  "fetchMarkets resp c =
     (case fetchMarkets_try resp c of
        (Inl e, c') \<Rightarrow> ([], c')
      | (Inr r, c') \<Rightarrow> (r, c'))"

text \<open>
  \<^verbatim>\<open>fetchBalances\<close>. The world answers \<^verbatim>\<open>wallet.getAddress()\<close>,
  \<^verbatim>\<open>getUserTokens\<close> and, per token, \<^verbatim>\<open>getBalance\<close>. The source starts the
  \<^verbatim>\<open>getBalance\<close> calls together under \<^verbatim>\<open>Promise.all\<close> and stores each balance
  when its call answers. The model is the run in which the answers arrive in the order
  of the list, read at the moment \<^verbatim>\<open>fetchBalances\<close> returns: after a failing call the
  \<^verbatim>\<open>catch\<close> returns at once, and a balance that answers later is stored by the source
  after that moment. In other runs the map after a failure, and the insertion order
  after a success, can differ; the list returned on a failure, and the record found
  under each token after a success, are the same in every run.
\<close>

record raw_balance =
  rb_free :: int
  rb_locked :: int
  rb_total :: int

record balances_world =
  bw_address :: "js_error + string"
  bw_tokens :: "js_error + jsval list"
  bw_balance :: "jsval \<Rightarrow> js_error + raw_balance"

definition balance_of :: "jsval \<Rightarrow> raw_balance \<Rightarrow> jsobj" where
  "balance_of tok b =
     [''token'' \<mapsto> tok, ''free'' \<mapsto> JStr (formatUnits (rb_free b) 18),
      ''locked'' \<mapsto> JStr (formatUnits (rb_locked b) 18),
      ''total'' \<mapsto> JStr (formatUnits (rb_total b) 18)]"

fun store_balances ::
    "(jsval \<Rightarrow> js_error + raw_balance) \<Rightarrow> jsval list \<Rightarrow> client \<Rightarrow> (js_error + unit) \<times> client" where
  "store_balances g [] c = (Inr (), c)"
| "store_balances g (tok # toks) c =
     (case g tok of
        Inl e \<Rightarrow> (Inl e, c)
      | Inr b \<Rightarrow>
         store_balances g toks (c\<lparr>balances := Map_set (balances c) tok (balance_of tok b)\<rparr>))"

definition fetchBalances_try ::
    "balances_world \<Rightarrow> client \<Rightarrow> (js_error + jsobj list) \<times> client" where
  "fetchBalances_try w c =
     (if network c \<in> set evm_networks then
        (case bw_address w of
           Inl e \<Rightarrow> (Inl e, c)
         | Inr walletAddress \<Rightarrow>
            (case bw_tokens w of
               Inl e \<Rightarrow> (Inl e, c)
             | Inr tokens \<Rightarrow>
                (case store_balances (bw_balance w) tokens c of
                   (Inl e, c') \<Rightarrow> (Inl e, c')
                 | (Inr u, c') \<Rightarrow> (Inr (Map_values (balances c')), c'))))
      else (Inr (Map_values (balances c)), c))"

definition fetchBalances :: "balances_world \<Rightarrow> client \<Rightarrow> jsobj list \<times> client" where
  "fetchBalances w c =
     (if \<not> wallet c then ([], c)
      else (case fetchBalances_try w c of
              (Inl e, c') \<Rightarrow> ([], c')
            | (Inr r, c') \<Rightarrow> (r, c')))"

text \<open>
  \<^verbatim>\<open>fetchPositions\<close>. A position as the margin contract returns it: the integers that
  \<^verbatim>\<open>formatUnits\<close> reads, and the numbers \<open>side\<close>, \<open>leverage\<close> (basis points) and
  \<open>unrealizedPnlPercentage\<close>.
\<close>

record raw_position =
  rp_id :: jsval
  rp_market :: jsval
  rp_side :: int
  rp_size :: int
  rp_leverage :: nat
  rp_entryPrice :: int
  rp_liquidationPrice :: int
  rp_margin :: int
  rp_unrealizedPnl :: int
  rp_unrealizedPnlPercentage :: int

record positions_world =
  pw_address :: "js_error + string"
  pw_positions :: "js_error + raw_position list"

definition position_of :: "raw_position \<Rightarrow> jsobj" where
  "position_of rp =
     [''id'' \<mapsto> rp_id rp, ''market'' \<mapsto> rp_market rp,
      ''side'' \<mapsto> JStr (if rp_side rp = 0 then ''long'' else ''short''),
      ''size'' \<mapsto> JStr (formatUnits (rp_size rp) 18),
      ''leverage'' \<mapsto> JNum (leverage_of_bp (rp_leverage rp)),
      ''entryPrice'' \<mapsto> JStr (formatUnits (rp_entryPrice rp) 8),
      ''liquidationPrice'' \<mapsto> JStr (formatUnits (rp_liquidationPrice rp) 8),
      ''margin'' \<mapsto> JStr (formatUnits (rp_margin rp) 18),
      ''pnl'' \<mapsto> JStr (formatUnits (rp_unrealizedPnl rp) 18),
      ''pnlPercentage'' \<mapsto> JNum (js_div (of_int (rp_unrealizedPnlPercentage rp)) 100)]"

definition fetchPositions_try ::
    "positions_world \<Rightarrow> client \<Rightarrow> (js_error + jsobj list) \<times> client" where
  "fetchPositions_try w c =
     (if network c \<in> set evm_networks then
        (case pw_address w of
           Inl e \<Rightarrow> (Inl e, c)
         | Inr walletAddress \<Rightarrow>
            (case pw_positions w of
               Inl e \<Rightarrow> (Inl e, c)
             | Inr ps \<Rightarrow>
                let c' = c\<lparr>positions :=
                           foldl (\<lambda>m rp. Map_set m (rp_id rp) (position_of rp)) (positions c) ps\<rparr>
                in (Inr (Map_values (positions c')), c')))
      else (Inr (Map_values (positions c)), c))"

definition fetchPositions :: "positions_world \<Rightarrow> client \<Rightarrow> jsobj list \<times> client" where
  "fetchPositions w c =
     (if \<not> wallet c then ([], c)
      else (case fetchPositions_try w c of
              (Inl e, c') \<Rightarrow> ([], c')
            | (Inr r, c') \<Rightarrow> (r, c')))"

text \<open>
  \<^verbatim>\<open>fetchOpenOrders\<close>. \<^verbatim>\<open>order.timestamp.toNumber()\<close> throws when the integer does
  not fit 53 bits; the exception leaves \<^verbatim>\<open>forEach\<close> with the earlier orders stored.
\<close>

record raw_order =
  ro_id :: jsval
  ro_market :: jsval
  ro_side :: int
  ro_orderType :: int
  ro_price :: int
  ro_amount :: int
  ro_filled :: int
  ro_status :: int
  ro_timestamp :: int

record orders_world =
  ow_address :: "js_error + string"
  ow_orders :: "js_error + raw_order list"

definition toNumber :: "int \<Rightarrow> js_error + rat" where
  "toNumber v = (if \<bar>v\<bar> < 2 ^ 53 then Inr (of_int v) else Inl (Error ''overflow''))"

definition order_of :: "raw_order \<Rightarrow> rat \<Rightarrow> jsobj" where
  "order_of ro ts =
     [''id'' \<mapsto> ro_id ro, ''market'' \<mapsto> ro_market ro,
      ''side'' \<mapsto> JStr (if ro_side ro = 0 then ''buy'' else ''sell''),
      ''type'' \<mapsto> JStr (getOrderTypeName (ro_orderType ro)),
      ''price'' \<mapsto> JStr (formatUnits (ro_price ro) 8),
      ''amount'' \<mapsto> JStr (formatUnits (ro_amount ro) 18),
      ''filled'' \<mapsto> JStr (formatUnits (ro_filled ro) 18),
      ''status'' \<mapsto> JStr (getOrderStatusName (ro_status ro)),
      ''timestamp'' \<mapsto> JNum (js_mul ts 1000)]"

fun store_orders :: "raw_order list \<Rightarrow> client \<Rightarrow> (js_error + unit) \<times> client" where
  "store_orders [] c = (Inr (), c)"
| "store_orders (ro # ros) c =
     (case toNumber (ro_timestamp ro) of
        Inl e \<Rightarrow> (Inl e, c)
      | Inr ts \<Rightarrow>
         store_orders ros (c\<lparr>orders := Map_set (orders c) (ro_id ro) (order_of ro ts)\<rparr>))"

definition fetchOpenOrders_try ::
    "orders_world \<Rightarrow> client \<Rightarrow> (js_error + jsobj list) \<times> client" where
  "fetchOpenOrders_try w c =
     (if network c \<in> set evm_networks then
        (case ow_address w of
           Inl e \<Rightarrow> (Inl e, c)
         | Inr walletAddress \<Rightarrow>
            (case ow_orders w of
               Inl e \<Rightarrow> (Inl e, c)
             | Inr os \<Rightarrow>
                (case store_orders os c of
                   (Inl e, c') \<Rightarrow> (Inl e, c')
                 | (Inr u, c') \<Rightarrow> (Inr (Map_values (orders c')), c'))))
      else (Inr (Map_values (orders c)), c))"

definition fetchOpenOrders :: "orders_world \<Rightarrow> client \<Rightarrow> jsobj list \<times> client" where
  "fetchOpenOrders w c =
     (if \<not> wallet c then ([], c)
      else (case fetchOpenOrders_try w c of
              (Inl e, c') \<Rightarrow> ([], c')
            | (Inr r, c') \<Rightarrow> (r, c')))"

text \<open>
  \<^verbatim>\<open>initialize\<close> awaits the four fetches under \<^verbatim>\<open>Promise.all\<close>. They are started
  together; each writes its own map and reads, besides that map, only \<open>network\<close> and
  \<open>wallet\<close>, so every interleaving ends in the state that running them one after the
  other reaches, which is what the model does. None of them throws, so the \<^verbatim>\<open>catch\<close>
  of \<^verbatim>\<open>initialize\<close> is never entered.
\<close>

definition initialize ::
    "(js_error + jsobj list) \<Rightarrow> balances_world \<Rightarrow> positions_world \<Rightarrow> orders_world \<Rightarrow> client \<Rightarrow> client" where
  "initialize resp bw pw ow c =
     snd (fetchOpenOrders ow (snd (fetchPositions pw (snd (fetchBalances bw (snd (fetchMarkets resp c)))))))"

section \<open>Reading the store\<close>

text \<open>
  The properties below speak of what a reader finds in a \<^verbatim>\<open>Map\<close>: the record under a
  key (the empty object when there is none) and one property of it. Amounts are the
  decimal strings the client stores; \<open>decimal18\<close> reads one as the client itself reads
  an amount, with \<^verbatim>\<open>parseUnits(s, 18)\<close>. \<open>fill_ok\<close> is \<open>0 \<le> filled \<le> amount\<close>,
  \<open>terminal\<close> lists the terminal statuses, \<open>balance_ok\<close> is \<open>total = free + locked\<close>.
\<close>

definition record_at :: "jsmap \<Rightarrow> jsval \<Rightarrow> jsobj" where
  "record_at m k = (case Map_get m k of None \<Rightarrow> Map.empty | Some ob \<Rightarrow> ob)"

definition stored :: "jsmap \<Rightarrow> jsval \<Rightarrow> string \<Rightarrow> jsval" where
  "stored m k f = (case Map_get m k of None \<Rightarrow> JUndefined | Some ob \<Rightarrow> getp ob f)"

definition decimal18 :: "jsval \<Rightarrow> int option" where
  "decimal18 v =
     (case v of
        JStr s \<Rightarrow> (case parseUnits s 18 of Inl e \<Rightarrow> None | Inr n \<Rightarrow> Some n)
      | _ \<Rightarrow> None)"

definition fill_ok :: "jsobj \<Rightarrow> bool" where
  "fill_ok ob =
     (case (decimal18 (getp ob ''filled''), decimal18 (getp ob ''amount'')) of
        (Some f, Some a) \<Rightarrow> 0 \<le> f \<and> f \<le> a
      | _ \<Rightarrow> False)"

definition terminal :: "jsval \<Rightarrow> bool" where
  "terminal s = (s \<in> set [JStr ''filled'', JStr ''canceled'', JStr ''expired'', JStr ''rejected''])"

definition balance_ok :: "jsobj \<Rightarrow> bool" where
  "balance_ok ob =
     (case (decimal18 (getp ob ''free''), decimal18 (getp ob ''locked''),
            decimal18 (getp ob ''total'')) of
        (Some f, Some l, Some t) \<Rightarrow> t = f + l
      | _ \<Rightarrow> False)"


text \<open>
  An exception inside the \<^verbatim>\<open>try\<close> body of a fetch on an EVM network: one of the calls
  the body makes fails (for the open orders, also a timestamp that \<^verbatim>\<open>toNumber\<close>
  rejects).
\<close>

definition balances_failure :: "balances_world \<Rightarrow> bool" where
  "balances_failure w =
     (isl (bw_address w) \<or> isl (bw_tokens w) \<or>
      (case bw_tokens w of Inl e \<Rightarrow> False | Inr toks \<Rightarrow> list_ex (\<lambda>t. isl (bw_balance w t)) toks))"

definition positions_failure :: "positions_world \<Rightarrow> bool" where
  "positions_failure w = (isl (pw_address w) \<or> isl (pw_positions w))"

definition orders_failure :: "orders_world \<Rightarrow> bool" where
  "orders_failure w =
     (isl (ow_address w) \<or> isl (ow_orders w) \<or>
      (case ow_orders w of Inl e \<Rightarrow> False
       | Inr ros \<Rightarrow> list_ex (\<lambda>ro. isl (toNumber (ro_timestamp ro))) ros))"

section \<open>Example states, requests and messages\<close>

text \<open>
  The concrete inputs of the scenarios: a client on \<^verbatim>\<open>arbitrum\<close> that knows the market
  \<^verbatim>\<open>ETH-USDC\<close>, the limit order request of the README, a confirmation whose logs hold
  an \<^verbatim>\<open>OrderCreated\<close> event with order id 42, and push messages for that order.
\<close>

definition market_ETH_USDC :: jsobj where
  "market_ETH_USDC = [''symbol'' \<mapsto> JStr ''ETH-USDC'', ''address'' \<mapsto> JStr ''0xE7'',
     ''priceDecimals'' \<mapsto> JNum 8, ''sizeDecimals'' \<mapsto> JNum 18]"

definition client0 :: client where
  "client0 = \<lparr>network = ''arbitrum'', wallet = True, positions = [], orders = [], balances = [],
     markets = [(JStr ''ETH-USDC'', market_ETH_USDC)], sent = []\<rparr>"

definition client_empty :: client where
  "client_empty = \<lparr>network = ''arbitrum'', wallet = True, positions = [], orders = [],
     balances = [], markets = [], sent = []\<rparr>"

definition client_solana :: client where
  "client_solana = \<lparr>network = ''solana'', wallet = True, positions = [], orders = [],
     balances = [], markets = [], sent = []\<rparr>"

definition client_nowallet :: client where
  "client_nowallet = client0\<lparr>wallet := False\<rparr>"

definition request_B :: order_request where
  "request_B = \<lparr>market = ''ETH-USDC'', side = ''buy'', otype = ''limit'', price = ''1720.50'',
     amount = ''1.5'', leverage = None, reduceOnly = None, timeInForce = None, stopPrice = None,
     clientOrderId = None\<rparr>"

definition world_B :: create_world where
  "world_B = \<lparr>cw_now0 = 1700000000000,
     cw_submit = Inr \<lparr>tx_hash = ''0xabc'',
        tx_logs = [None, Some (''Transfer'', ''7''), Some (''OrderCreated'', ''42'')]\<rparr>,
     cw_now1 = 1700000000500\<rparr>"

definition order_42 :: jsobj where
  "order_42 = newOrder_of ''42'' request_B 1700000000500 ''0xabc''"

definition order_43 :: jsobj where
  "order_43 = newOrder_of ''43'' request_B 1700000000900 ''0xdef''"

definition client_42 :: client where
  "client_42 = client0\<lparr>orders := [(JStr ''42'', order_42)]\<rparr>"

definition client_two :: client where
  "client_two = client0\<lparr>orders := [(JStr ''42'', order_42), (JStr ''43'', order_43)]\<rparr>"

definition push_fill :: message where
  "push_fill = \<lparr>msg_type = ''order_update'',
     msg_data = [''id'' \<mapsto> JStr ''42'', ''status'' \<mapsto> JStr ''filled'', ''filled'' \<mapsto> JStr ''1.5'',
                 ''sequence'' \<mapsto> JNum 2]\<rparr>"

definition push_stale :: message where
  "push_stale = \<lparr>msg_type = ''order_update'',
     msg_data = [''id'' \<mapsto> JStr ''42'', ''status'' \<mapsto> JStr ''open'', ''filled'' \<mapsto> JStr ''0'',
                 ''sequence'' \<mapsto> JNum 1]\<rparr>"

definition push_regress :: message where
  "push_regress = \<lparr>msg_type = ''order_update'',
     msg_data = [''id'' \<mapsto> JStr ''42'', ''status'' \<mapsto> JStr ''open'', ''filled'' \<mapsto> JStr ''0.5'']\<rparr>"

definition push_overfill :: message where
  "push_overfill = \<lparr>msg_type = ''order_update'',
     msg_data = [''id'' \<mapsto> JStr ''42'', ''filled'' \<mapsto> JStr ''9'']\<rparr>"



definition client_solana_42 :: client where
  "client_solana_42 = updateOrder order_42 client_solana"

definition client_42_filled :: client where
  "client_42_filled = handleWebSocketMessage push_fill client_42"

definition push_balance_full :: message where
  "push_balance_full = \<lparr>msg_type = ''balance_update'',
     msg_data = [''token'' \<mapsto> JStr ''USDC'', ''free'' \<mapsto> JStr ''10'', ''locked'' \<mapsto> JStr ''5'',
                 ''total'' \<mapsto> JStr ''15'']\<rparr>"

definition push_balance_free :: message where
  "push_balance_free = \<lparr>msg_type = ''balance_update'',
     msg_data = [''token'' \<mapsto> JStr ''USDC'', ''free'' \<mapsto> JStr ''7'']\<rparr>"

definition balances_world_fail :: balances_world where
  "balances_world_fail = \<lparr>bw_address = Inr ''0xA11CE'',
     bw_tokens = Inr [JStr ''USDC'', JStr ''ETH''],
     bw_balance = (\<lambda>t. if t = JStr ''USDC''
                        then Inr \<lparr>rb_free = 10, rb_locked = 5, rb_total = 15\<rparr>
                        else Inl (Error ''timeout''))\<rparr>"

definition balances_world_ok :: balances_world where
  "balances_world_ok = \<lparr>bw_address = Inr ''0xA11CE'',
     bw_tokens = Inr [JStr ''USDC''],
     bw_balance = (\<lambda>t. Inr \<lparr>rb_free = 10000000000000000000, rb_locked = 5000000000000000000,
                                 rb_total = 15000000000000000000\<rparr>)\<rparr>"

definition raw_position_7 :: raw_position where
  "raw_position_7 = \<lparr>rp_id = JStr ''7'', rp_market = JStr ''ETH-USDC'', rp_side = 0,
     rp_size = 2000000000000000000, rp_leverage = 250, rp_entryPrice = 172050000000,
     rp_liquidationPrice = 110000000000, rp_margin = 1376400000000000000000,
     rp_unrealizedPnl = 0, rp_unrealizedPnlPercentage = 0\<rparr>"

definition positions_world_fail :: positions_world where
  "positions_world_fail = \<lparr>pw_address = Inr ''0xA11CE'', pw_positions = Inl (Error ''timeout'')\<rparr>"

definition orders_world_fail :: orders_world where
  "orders_world_fail = \<lparr>ow_address = Inl (Error ''wallet locked''), ow_orders = Inr []\<rparr>"

section \<open>Facts about Maps and spreads\<close>

lemma Map_get_set: "Map_get (Map_set m k v) = (Map_get m)(k \<mapsto> v)"
  by (induction m) (auto simp: Map_get_def fun_eq_iff)

lemma Map_get_set_same: "Map_get (Map_set m k v) k = Some v"
  by (simp add: Map_get_set)

lemma Map_get_set_other: "k' \<noteq> k \<Longrightarrow> Map_get (Map_set m k v) k' = Map_get m k'"
  by (simp add: Map_get_set)



lemma Map_set_unchanged_iff:
  "distinct (map fst m) \<Longrightarrow> (Map_set m k v = m) = (Map_get m k = Some v)"
  by (induction m) (auto simp: Map_get_def rev_image_eqI)

lemma spread_field:
  "spread a b f = (case b f of Some v \<Rightarrow> Some v | None \<Rightarrow> (case a of None \<Rightarrow> None | Some x \<Rightarrow> x f))"
  by (simp add: spread_def map_add_def split: option.splits)

lemma spread_same_iff: "(spread (Some x) b = x) = (\<forall>f v. b f = Some v \<longrightarrow> x f = Some v)"
  by (auto simp: spread_def map_add_def fun_eq_iff split: option.splits)

lemma Map_set_fst: "Map_get m k = Some v \<Longrightarrow> map fst (Map_set m k v') = map fst m"
  by (induction m) (auto simp: Map_get_def split: if_splits)

lemma stored_set_same: "stored (Map_set m k ob) k f = getp ob f"
  by (simp add: stored_def Map_get_set)

lemma stored_set_other: "k' \<noteq> k \<Longrightarrow> stored (Map_set m k ob) k' f = stored m k' f"
  by (simp add: stored_def Map_get_set)

lemma getp_spread_carried: "d f = Some v \<Longrightarrow> getp (spread a d) f = v"
  by (simp add: getp_def spread_field)

lemma getp_spread_kept: "d f = None \<Longrightarrow> getp (spread (Some old) d) f = getp old f"
  by (simp add: getp_def spread_field)

lemma getp_spread_none: "d f = None \<Longrightarrow> getp (spread None d) f = JUndefined"
  by (simp add: getp_def spread_field)

lemma updateOrder_stored:
  "stored (orders (updateOrder d c)) (getp d ''id'') f
     = getp (spread (Map_get (orders c) (getp d ''id'')) d) f"
  by (simp add: updateOrder_def stored_set_same)

lemma balance_ok_cong:
  "getp a ''free'' = getp b ''free'' \<Longrightarrow> getp a ''locked'' = getp b ''locked'' \<Longrightarrow>
   getp a ''total'' = getp b ''total'' \<Longrightarrow> balance_ok a = balance_ok b"
  by (simp add: balance_ok_def)

section \<open>Facts about decimal strings\<close>

text \<open>
  Reading back what \<^verbatim>\<open>formatUnits\<close> writes gives the integer that was written, for
  every integer and every number of decimals.
\<close>

lemma is_digit_digit_char: "is_digit (digit_char d)"
  by (simp add: is_digit_def digit_val_def digit_char_def)

lemma digit_val_digit_char: "d < 10 \<Longrightarrow> digit_val (digit_char d) = Some d"
  by (auto simp: digit_val_def digit_char_def)

lemma not_digit_special: "\<not> is_digit CHR ''.''" "\<not> is_digit CHR ''-''"
  by (simp_all add: is_digit_def digit_val_def)

lemma string_of_nat_digits: "list_all is_digit (string_of_nat n)"
  by (induction n rule: string_of_nat.induct)
    (subst string_of_nat.simps, simp add: is_digit_digit_char)

lemma string_of_nat_nonempty: "string_of_nat n \<noteq> []"
  by (subst string_of_nat.simps) simp

lemma nat_of_digits_snoc:
  "nat_of_digits (ds @ [ch]) = 10 * nat_of_digits ds + (case digit_val ch of Some d \<Rightarrow> d | None \<Rightarrow> 0)"
  by (simp add: nat_of_digits_def)

lemma nat_of_digits_string_of_nat: "nat_of_digits (string_of_nat n) = n"
proof (induction n rule: string_of_nat.induct)
  case (1 n)
  show ?case
  proof (cases "n < 10")
    case True
    then show ?thesis
      by (subst string_of_nat.simps) (simp add: nat_of_digits_def digit_val_digit_char)
  next
    case False
    with 1 have "nat_of_digits (string_of_nat (n div 10)) = n div 10" by simp
    with False show ?thesis
      by (subst string_of_nat.simps) (simp add: nat_of_digits_snoc digit_val_digit_char)
  qed
qed

lemma length_string_of_nat: "n < 10 ^ d \<Longrightarrow> 0 < d \<Longrightarrow> length (string_of_nat n) \<le> d"
proof (induction n arbitrary: d rule: string_of_nat.induct)
  case (1 n)
  show ?case
  proof (cases "n < 10")
    case True
    then show ?thesis using 1(3) by (subst string_of_nat.simps) simp
  next
    case False
    obtain d' where d: "d = Suc d'" using 1(3) by (cases d) auto
    have "d' \<noteq> 0" using False 1(2) d by (cases d') auto
    moreover have "n div 10 < 10 ^ d'" using 1(2) d by (simp add: less_mult_imp_div_less mult.commute)
    ultimately have "length (string_of_nat (n div 10)) \<le> d'" using 1(1) [OF False] by simp
    with False d show ?thesis by (subst string_of_nat.simps) simp
  qed
qed

lemma nat_of_digits_append:
  "nat_of_digits (xs @ ys) = nat_of_digits xs * 10 ^ length ys + nat_of_digits ys"
proof (induction ys rule: rev_induct)
  case Nil
  show ?case by (simp add: nat_of_digits_def)
next
  case (snoc y ys)
  have "nat_of_digits (xs @ ys @ [y]) = nat_of_digits ((xs @ ys) @ [y])" by simp
  also have "\<dots> = 10 * nat_of_digits (xs @ ys) + (case digit_val y of Some d \<Rightarrow> d | None \<Rightarrow> 0)"
    by (rule nat_of_digits_snoc)
  finally show ?case using snoc by (simp add: nat_of_digits_snoc algebra_simps)
qed

lemma nat_of_digits_zeros: "nat_of_digits (replicate k CHR ''0'') = 0"
  by (induction k) (simp_all add: nat_of_digits_def digit_val_def)

lemma strip_zeros_decomp:
  "strip_zeros ds @ replicate (length ds - length (strip_zeros ds)) CHR ''0'' = ds"
proof (induction ds)
  case Nil
  show ?case by simp
next
  case (Cons ch cs)
  show ?case
  proof (cases "strip_zeros cs")
    case Nil
    with Cons have cs: "cs = replicate (length cs) CHR ''0''" by simp
    show ?thesis
    proof (cases "ch = CHR ''0''")
      case True
      with Nil cs show ?thesis by simp
    next
      case False
      with Nil cs show ?thesis by simp
    qed
  next
    case (Cons r rs)
    have "length (strip_zeros cs) \<le> length cs"
      using Cons.IH by (metis length_append le_add1)
    with Cons Cons.IH show ?thesis by (simp add: Suc_diff_le)
  qed
qed

lemma strip_zeros_length: "length (strip_zeros ds) \<le> length ds"
  by (metis strip_zeros_decomp length_append le_add1)

lemma strip_zeros_digits: "list_all is_digit ds \<Longrightarrow> list_all is_digit (strip_zeros ds)"
  by (induction ds) (auto split: list.splits)

lemma strip_zeros_idem: "strip_zeros (strip_zeros ds) = strip_zeros ds"
  by (induction ds) (auto split: list.splits)

lemma nat_of_digits_strip:
  "nat_of_digits (strip_zeros ds) * 10 ^ (length ds - length (strip_zeros ds)) = nat_of_digits ds"
proof -
  have "nat_of_digits ds
      = nat_of_digits (strip_zeros ds @ replicate (length ds - length (strip_zeros ds)) CHR ''0'')"
    by (simp add: strip_zeros_decomp)
  also have "\<dots> = nat_of_digits (strip_zeros ds) * 10 ^ (length ds - length (strip_zeros ds))"
    by (simp add: nat_of_digits_append nat_of_digits_zeros)
  finally show ?thesis by simp
qed


lemma takeWhile_digits: "list_all is_digit ds \<Longrightarrow> takeWhile (\<lambda>ch. ch \<noteq> CHR ''.'') (ds @ rest) = ds @ takeWhile (\<lambda>ch. ch \<noteq> CHR ''.'') rest"
  by (induction ds) (auto simp: not_digit_special)

lemma dropWhile_digits: "list_all is_digit ds \<Longrightarrow> dropWhile (\<lambda>ch. ch \<noteq> CHR ''.'') (ds @ rest) = dropWhile (\<lambda>ch. ch \<noteq> CHR ''.'') rest"
  by (induction ds) (auto simp: not_digit_special)

lemma filter_dot_digits: "list_all is_digit ds \<Longrightarrow> filter (\<lambda>ch. ch = CHR ''.'') ds = []"
  by (induction ds) (auto simp: not_digit_special)

lemma digits_or_dot: "list_all is_digit ds \<Longrightarrow> list_all (\<lambda>ch. is_digit ch \<or> ch = CHR ''.'') ds"
  by (induction ds) auto

lemma fraction_props:
  assumes "0 < d"
  shows "list_all is_digit (format_fraction a d)"
    and "length (strip_zeros (format_fraction a d)) \<le> d"
    and "nat_of_digits (strip_zeros (format_fraction a d))
           * 10 ^ (d - length (strip_zeros (format_fraction a d))) = a mod 10 ^ d"
proof -
  define padded where
    "padded = replicate (d - length (string_of_nat (a mod 10 ^ d))) CHR ''0'' @ string_of_nat (a mod 10 ^ d)"
  have fr: "format_fraction a d = (case strip_zeros padded of [] \<Rightarrow> ''0'' | r # rs \<Rightarrow> r # rs)"
    by (simp add: format_fraction_def padded_def)
  have lt: "a mod 10 ^ d < 10 ^ d" by simp
  have len: "length (string_of_nat (a mod 10 ^ d)) \<le> d"
    using lt assms(1) by (rule length_string_of_nat)
  then have plen: "length padded = d" by (simp add: padded_def)
  have "list_all is_digit (replicate k CHR ''0'')" for k
    by (induction k) (simp_all add: is_digit_def digit_val_def)
  then have pdig: "list_all is_digit padded"
    by (simp add: padded_def string_of_nat_digits)
  have pval: "nat_of_digits padded = a mod 10 ^ d"
    by (simp add: padded_def nat_of_digits_append nat_of_digits_zeros nat_of_digits_string_of_nat)
  have sf: "strip_zeros (format_fraction a d) = strip_zeros padded"
  proof (cases "strip_zeros padded")
    case Nil
    then show ?thesis by (simp add: fr)
  next
    case (Cons r rs)
    then have "format_fraction a d = strip_zeros padded" by (simp add: fr)
    then show ?thesis by (simp add: strip_zeros_idem)
  qed
  show "list_all is_digit (format_fraction a d)"
    using strip_zeros_digits [OF pdig]
    by (cases "strip_zeros padded") (simp_all add: fr is_digit_def digit_val_def)
  show "length (strip_zeros (format_fraction a d)) \<le> d"
    using strip_zeros_length [of padded] by (simp add: sf plen)
  show "nat_of_digits (strip_zeros (format_fraction a d))
           * 10 ^ (d - length (strip_zeros (format_fraction a d))) = a mod 10 ^ d"
    using nat_of_digits_strip [of padded] by (simp add: sf plen pval)
qed

lemma hd_digit_not_minus: "list_all is_digit ds \<Longrightarrow> ds \<noteq> [] \<Longrightarrow> take 1 (ds @ rest) \<noteq> ''-''"
  by (cases ds) (auto simp: not_digit_special)

lemma parse_magnitude_format_body: "parse_magnitude (format_body a d) d = Inr a"
proof -
  define whole where "whole = string_of_nat (a div 10 ^ d)"
  have wd: "list_all is_digit whole" and wn: "whole \<noteq> []" and wv: "nat_of_digits whole = a div 10 ^ d"
    by (simp_all add: whole_def string_of_nat_digits string_of_nat_nonempty nat_of_digits_string_of_nat)
  show ?thesis
  proof (cases "d = 0")
    case True
    have fb: "format_body a d = whole" using True by (simp add: format_body_def whole_def)
    have tw: "takeWhile (\<lambda>ch. ch \<noteq> CHR ''.'') whole = whole"
      and dw: "dropWhile (\<lambda>ch. ch \<noteq> CHR ''.'') whole = []"
      using takeWhile_digits [OF wd, of "[]"] dropWhile_digits [OF wd, of "[]"] by simp_all
    have ne: "whole \<noteq> ''.''" using wd by (auto simp: not_digit_special)
    show ?thesis
      unfolding fb parse_magnitude_def Let_def tw dw
      using True wn wv digits_or_dot [OF wd] filter_dot_digits [OF wd] ne
      by (simp add: nat_of_digits_def)
  next
    case False
    define fraction where "fraction = format_fraction a d"
    from False have d: "0 < d" by simp
    note fp = fraction_props [OF d, of a, folded fraction_def]
    have fb: "format_body a d = whole @ CHR ''.'' # fraction"
      using False by (simp add: format_body_def whole_def fraction_def)
    have tw: "takeWhile (\<lambda>ch. ch \<noteq> CHR ''.'') (whole @ CHR ''.'' # fraction) = whole"
      using takeWhile_digits [OF wd, of "CHR ''.'' # fraction"] by simp
    have dw: "drop 1 (dropWhile (\<lambda>ch. ch \<noteq> CHR ''.'') (whole @ CHR ''.'' # fraction)) = fraction"
      using dropWhile_digits [OF wd, of "CHR ''.'' # fraction"] by simp
    have fl: "length (filter (\<lambda>ch. ch = CHR ''.'') (whole @ CHR ''.'' # fraction)) = 1"
      using filter_dot_digits [OF wd] filter_dot_digits [OF fp(1)] by simp
    have al: "list_all (\<lambda>ch. is_digit ch \<or> ch = CHR ''.'') (whole @ CHR ''.'' # fraction)"
      using digits_or_dot [OF wd] digits_or_dot [OF fp(1)] by simp
    have ne: "whole @ CHR ''.'' # fraction \<noteq> ''.''" "whole @ CHR ''.'' # fraction \<noteq> []"
      using wn by (cases whole; simp)+
    have val: "nat_of_digits whole * 10 ^ d
        + nat_of_digits (strip_zeros fraction) * 10 ^ (d - length (strip_zeros fraction)) = a"
      by (simp add: wv fp(3) div_mult_mod_eq)
    show ?thesis
      unfolding fb parse_magnitude_def Let_def tw dw fl
      using al ne fp(2) val by simp
  qed
qed

lemma format_body_no_minus: "take 1 (format_body a d) \<noteq> ''-''"
proof -
  have wd: "list_all is_digit (string_of_nat (a div 10 ^ d))" by (rule string_of_nat_digits)
  have wn: "string_of_nat (a div 10 ^ d) \<noteq> []" by (rule string_of_nat_nonempty)
  show ?thesis
  proof (cases "d = 0")
    case True
    then show ?thesis
      using hd_digit_not_minus [OF wd wn, of "[]"] by (simp add: format_body_def)
  next
    case False
    then show ?thesis
      using hd_digit_not_minus [OF wd wn, of "''.'' @ format_fraction a d"]
      by (simp add: format_body_def)
  qed
qed

lemma parseUnits_formatUnits: "parseUnits (formatUnits v d) d = Inr v"
proof (cases "v < 0")
  case True
  then show ?thesis
    by (simp add: formatUnits_def parseUnits_def parse_magnitude_format_body)
next
  case False
  then show ?thesis
    using format_body_no_minus [of "nat \<bar>v\<bar>" d]
    by (simp add: formatUnits_def parseUnits_def parse_magnitude_format_body)
qed

lemma parse_price_B: "parseUnits ''1720.50'' 8 = Inr 172050000000"
  by (simp add: parseUnits_def parse_magnitude_def is_digit_def digit_val_def nat_of_digits_def)

lemma parse_amount_B: "parseUnits ''1.5'' 18 = Inr 1500000000000000000"
  by (simp add: parseUnits_def parse_magnitude_def is_digit_def digit_val_def nat_of_digits_def)

lemma dec_simps:
  "decimal18 (JStr ''1.5'') = Some 1500000000000000000"
  "decimal18 (JStr ''0'') = Some 0"
  "decimal18 (JStr ''0.5'') = Some 500000000000000000"
  "decimal18 (JStr ''9'') = Some 9000000000000000000"
  by (simp_all add: decimal18_def parseUnits_def parse_magnitude_def is_digit_def digit_val_def
      nat_of_digits_def)

lemma dec_simps2:
  "decimal18 (JStr ''10'') = Some 10000000000000000000"
  "decimal18 (JStr ''5'') = Some 5000000000000000000"
  "decimal18 (JStr ''15'') = Some 15000000000000000000"
  "decimal18 (JStr ''7'') = Some 7000000000000000000"
  by (simp_all add: decimal18_def parseUnits_def parse_magnitude_def is_digit_def digit_val_def
      nat_of_digits_def)

section \<open>Facts about rounding to binary64\<close>

lemma rnd_even_error: "\<bar>of_int (rnd_even q) - q\<bar> \<le> 1 / 2"
proof -
  have "of_int \<lfloor>q\<rfloor> \<le> q" "q < of_int \<lfloor>q\<rfloor> + 1" by linarith+
  then show ?thesis
    by (auto simp: rnd_even_def Let_def)
qed

lemma quotient_of_pos:
  assumes "0 < x"
  shows "0 < fst (quotient_of x)" "0 < snd (quotient_of x)"
    "x = of_int (fst (quotient_of x)) / of_int (snd (quotient_of x))"
proof -
  obtain a b where q: "quotient_of x = (a, b)" by (cases "quotient_of x")
  have b: "0 < b" using q by (rule quotient_of_denom_pos)
  have x: "x = of_int a / of_int b" using q by (rule quotient_of_div)
  have "0 < a" using assms b x by (simp add: zero_less_divide_iff)
  with b x q show "0 < fst (quotient_of x)" "0 < snd (quotient_of x)"
    "x = of_int (fst (quotient_of x)) / of_int (snd (quotient_of x))" by simp_all
qed

lemma bitlen_powi_bounds:
  assumes "0 < m"
  shows "(2::rat) powi (bitlen m - 1) \<le> of_int m" "of_int m < (2::rat) powi (bitlen m)"
proof -
  from assms have ge: "1 \<le> bitlen m" by (auto simp: bitlen_alt_def)
  from bitlen_bounds [OF assms]
  have lo: "2 ^ nat (bitlen m - 1) \<le> m" and hi: "m < 2 ^ nat (bitlen m)" by simp_all
  from lo have "(of_int (2 ^ nat (bitlen m - 1)) :: rat) \<le> of_int m" by (simp only: of_int_le_iff)
  then show "(2::rat) powi (bitlen m - 1) \<le> of_int m"
    using ge by (simp add: power_int_def)
  from hi have "(of_int m :: rat) < of_int (2 ^ nat (bitlen m))" by (simp only: of_int_less_iff)
  then show "of_int m < (2::rat) powi (bitlen m)"
    using ge by (simp add: power_int_def)
qed

lemma ilog2_bounds:
  assumes "0 < x"
  shows "2 powi (ilog2 x) \<le> x" "x < 2 powi (ilog2 x + 1)"
proof -
  define a where "a = fst (quotient_of x)"
  define b where "b = snd (quotient_of x)"
  define k where "k = bitlen a - bitlen b"
  from quotient_of_pos [OF assms]
  have a: "0 < a" and b: "0 < b" and x: "x = of_int a / of_int b"
    by (simp_all add: a_def b_def)
  note A = bitlen_powi_bounds [OF a]
  note B = bitlen_powi_bounds [OF b]
  have bpos: "(0::rat) < of_int b" using b by simp
  have p2: "(0::rat) < 2 powi n" for n by simp
  have low: "2 powi (k - 1) \<le> x"
  proof -
    have "(2::rat) powi (k - 1) = 2 powi (bitlen a - 1) / 2 powi (bitlen b)"
      unfolding k_def by (simp add: power_int_diff [symmetric] algebra_simps)
    also have "\<dots> \<le> of_int a / 2 powi (bitlen b)"
      using A(1) by (simp add: divide_right_mono)
    also have "\<dots> \<le> of_int a / of_int b"
      using B(2) a bpos by (intro divide_left_mono) (simp_all add: less_imp_le)
    finally show ?thesis by (simp add: x)
  qed
  have up: "x < 2 powi (k + 1)"
  proof -
    have "x < 2 powi (bitlen a) / of_int b"
      unfolding x using A(2) bpos by (simp add: divide_strict_right_mono)
    also have "\<dots> \<le> 2 powi (bitlen a) / 2 powi (bitlen b - 1)"
      using B(1) bpos by (intro divide_left_mono) simp_all
    also have "\<dots> = 2 powi (k + 1)"
      unfolding k_def by (simp add: power_int_diff [symmetric] algebra_simps)
    finally show ?thesis .
  qed
  have il: "ilog2 x = (if 2 powi k \<le> x then k else k - 1)"
    by (simp add: ilog2_def Let_def k_def a_def b_def)
  show "2 powi (ilog2 x) \<le> x" using low by (simp add: il)
  show "x < 2 powi (ilog2 x + 1)" using up by (auto simp: il not_le)
qed

lemma to_double_error:
  assumes "0 < x"
  shows "\<bar>to_double x - x\<bar> \<le> x / 2 ^ 53"
proof -
  define u :: rat where "u = 2 powi (ilog2 x - 52)"
  have u: "0 < u" by (simp add: u_def)
  have "u = 2 powi (ilog2 x) / 2 ^ 52"
    by (simp add: u_def power_int_diff)
  also have "\<dots> \<le> x / 2 ^ 52"
    using ilog2_bounds(1) [OF assms] by (simp add: divide_right_mono)
  finally have ux: "u \<le> x / 2 ^ 52" .
  have td: "to_double x = of_int (rnd_even (x / u)) * u"
    using assms by (simp add: to_double_def u_def Let_def)
  have "to_double x - x = (of_int (rnd_even (x / u)) - x / u) * u"
    using u by (simp add: td left_diff_distrib)
  then have "\<bar>to_double x - x\<bar> = \<bar>of_int (rnd_even (x / u)) - x / u\<bar> * u"
    using u by (simp add: abs_mult)
  also have "\<dots> \<le> (1 / 2) * u"
    using rnd_even_error [of "x / u"] u by (intro mult_right_mono) simp_all
  also have "\<dots> \<le> (1 / 2) * (x / 2 ^ 52)"
    using ux by simp
  also have "\<dots> = x / 2 ^ 53" by simp
  finally show ?thesis .
qed

lemma roundtrip_fails_eval:
  "Math_round (js_mul (js_div 3908134642837720 100) 100) = 3908134642837721"
  by code_simp

lemma leverage_of_250: "leverage_of_bp 250 = 5 / 2"
  unfolding leverage_of_bp_def of_nat_numeral by code_simp

section \<open>Facts about the operations\<close>

lemma isl_store_balances:
  "list_ex (\<lambda>t. isl (g t)) toks \<Longrightarrow> isl (fst (store_balances g toks c))"
  by (induction toks arbitrary: c) (auto split: sum.splits)

lemma isl_store_orders:
  "list_ex (\<lambda>ro. isl (toNumber (ro_timestamp ro))) ros \<Longrightarrow> isl (fst (store_orders ros c))"
  by (induction ros arbitrary: c) (auto split: sum.splits)

lemma fetchBalances_failure:
  assumes "network c \<in> set evm_networks" "balances_failure w"
  shows "fst (fetchBalances w c) = []"
proof (cases "wallet c")
  case False
  then show ?thesis by (simp add: fetchBalances_def)
next
  case True
  have "isl (fst (fetchBalances_try w c))"
  proof (cases "bw_address w")
    case (Inl e)
    then show ?thesis using assms by (simp add: fetchBalances_try_def)
  next
    case addr: (Inr a)
    show ?thesis
    proof (cases "bw_tokens w")
      case (Inl e)
      then show ?thesis using assms addr by (simp add: fetchBalances_try_def)
    next
      case (Inr toks)
      with assms(2) addr have "list_ex (\<lambda>t. isl (bw_balance w t)) toks"
        by (simp add: balances_failure_def)
      from isl_store_balances [OF this, of c] show ?thesis
        using assms(1) addr Inr by (auto simp: fetchBalances_try_def split: prod.splits sum.splits)
    qed
  qed
  then show ?thesis using True
    by (auto simp: fetchBalances_def split: prod.splits sum.splits)
qed

lemma fetchPositions_failure:
  assumes "network c \<in> set evm_networks" "positions_failure w"
  shows "fst (fetchPositions w c) = []"
  using assms
  by (auto simp: fetchPositions_def fetchPositions_try_def positions_failure_def Let_def
      split: prod.splits sum.splits)

lemma fetchOpenOrders_failure:
  assumes "network c \<in> set evm_networks" "orders_failure w"
  shows "fst (fetchOpenOrders w c) = []"
proof (cases "wallet c")
  case False
  then show ?thesis by (simp add: fetchOpenOrders_def)
next
  case True
  have "isl (fst (fetchOpenOrders_try w c))"
  proof (cases "ow_address w")
    case (Inl e)
    then show ?thesis using assms by (simp add: fetchOpenOrders_try_def)
  next
    case addr: (Inr a)
    show ?thesis
    proof (cases "ow_orders w")
      case (Inl e)
      then show ?thesis using assms addr by (simp add: fetchOpenOrders_try_def)
    next
      case (Inr ros)
      with assms(2) addr have "list_ex (\<lambda>ro. isl (toNumber (ro_timestamp ro))) ros"
        by (simp add: orders_failure_def)
      from isl_store_orders [OF this, of c] show ?thesis
        using assms(1) addr Inr by (auto simp: fetchOpenOrders_try_def split: prod.splits sum.splits)
    qed
  qed
  then show ?thesis using True
    by (auto simp: fetchOpenOrders_def split: prod.splits sum.splits)
qed

lemma cancelOrder_orders:
  assumes "cancelOrder w orderId c = (r, c')" and "Map_get (orders c) orderId = Some order"
  shows "orders c' = orders c
       \<or> orders c' = Map_set (orders c) orderId (order(''status'' \<mapsto> JStr ''canceled''))"
proof (cases "wallet c \<and> network c \<in> set evm_networks")
  case False
  with assms(1) show ?thesis
    by (auto simp: cancelOrder_def cancelOrder_try_def split: if_splits)
next
  case True
  show ?thesis
  proof (cases w)
    case (Inl e)
    obtain msg where "e = Error msg" by (cases e)
    with Inl True assms(1) show ?thesis
      by (auto simp: cancelOrder_def cancelOrder_try_def)
  next
    case (Inr txh)
    with True assms show ?thesis
      by (auto simp: cancelOrder_def cancelOrder_try_def)
  qed
qed

lemma client_42_filled_orders:
  "orders client_42_filled = [(JStr ''42'', spread (Some order_42) (msg_data push_fill))]"
  by (simp add: client_42_filled_def handleWebSocketMessage_def updateOrder_def push_fill_def
      client_42_def getp_def Map_get_def)

lemma decimal18_formatUnits: "decimal18 (JStr (formatUnits v 18)) = Some v"
  by (simp add: decimal18_def parseUnits_formatUnits)

lemma balance_ok_balance_of:
  "balance_ok (balance_of tok b) = (rb_total b = rb_free b + rb_locked b)"
  by (simp add: balance_ok_def balance_of_def getp_def decimal18_formatUnits)

lemma store_balances_other:
  "store_balances g toks c = (r, c') \<Longrightarrow> tok \<notin> set toks \<Longrightarrow>
   Map_get (balances c') tok = Map_get (balances c) tok"
  by (induction toks arbitrary: c) (auto simp: Map_get_set split: sum.splits)

lemma store_balances_stored:
  "store_balances g toks c = (Inr u, c') \<Longrightarrow> tok \<in> set toks \<Longrightarrow>
   \<exists>b. g tok = Inr b \<and> Map_get (balances c') tok = Some (balance_of tok b)"
proof (induction toks arbitrary: c)
  case Nil
  then show ?case by simp
next
  case (Cons t toks)
  from Cons.prems(1) obtain b where b: "g t = Inr b"
    and rest: "store_balances g toks (c\<lparr>balances := Map_set (balances c) t (balance_of t b)\<rparr>) = (Inr u, c')"
    by (auto split: sum.splits)
  show ?case
  proof (cases "tok \<in> set toks")
    case True
    from Cons.IH [OF rest True] show ?thesis .
  next
    case False
    with Cons.prems(2) have "tok = t" by simp
    with store_balances_other [OF rest False] b show ?thesis
      by (simp add: Map_get_set)
  qed
qed

lemma store_balances_ok:
  "\<not> list_ex (\<lambda>t. isl (g t)) toks \<Longrightarrow> \<exists>c'. store_balances g toks c = (Inr (), c')"
  by (induction toks arbitrary: c) (auto split: sum.splits)

lemma fetchBalances_stored:
  assumes "wallet c" "network c \<in> set evm_networks" "\<not> balances_failure w"
    and "bw_tokens w = Inr toks" "tok \<in> set toks"
  shows "\<exists>b. bw_balance w tok = Inr b
            \<and> Map_get (balances (snd (fetchBalances w c))) tok = Some (balance_of tok b)"
proof -
  from assms(3) obtain a where a: "bw_address w = Inr a"
    by (cases "bw_address w") (auto simp: balances_failure_def)
  from assms(3,4) have "\<not> list_ex (\<lambda>t. isl (bw_balance w t)) toks"
    by (simp add: balances_failure_def)
  from store_balances_ok [OF this, of c]
  obtain c' where st: "store_balances (bw_balance w) toks c = (Inr (), c')" by blast
  have "snd (fetchBalances w c) = c'"
    using assms(1,2,4) a st by (simp add: fetchBalances_def fetchBalances_try_def)
  with store_balances_stored [OF st assms(5)] show ?thesis by simp
qed

lemma store_balances_frame_ex:
  "store_balances g toks c = (r, c') \<Longrightarrow> \<exists>m. c' = c\<lparr>balances := m\<rparr>"
proof (induction toks arbitrary: c)
  case Nil
  then have "c' = c\<lparr>balances := balances c\<rparr>" by simp
  then show ?case by blast
next
  case (Cons t toks)
  show ?case
  proof (cases "g t")
    case (Inl e)
    with Cons.prems have "c' = c\<lparr>balances := balances c\<rparr>" by simp
    then show ?thesis by blast
  next
    case (Inr b)
    with Cons.prems
    have "store_balances g toks (c\<lparr>balances := Map_set (balances c) t (balance_of t b)\<rparr>) = (r, c')"
      by simp
    from Cons.IH [OF this] obtain m
      where "c' = c\<lparr>balances := Map_set (balances c) t (balance_of t b)\<rparr>\<lparr>balances := m\<rparr>"
      by blast
    then have "c' = c\<lparr>balances := m\<rparr>" by simp
    then show ?thesis by blast
  qed
qed

lemma store_balances_frame:
  assumes "store_balances g toks c = (r, c')"
  shows "c' = c\<lparr>balances := balances c'\<rparr>"
proof -
  from store_balances_frame_ex [OF assms] obtain m where m: "c' = c\<lparr>balances := m\<rparr>" by blast
  then have "balances c' = m" by simp
  with m show ?thesis by simp
qed

lemma store_balances_indep:
  "balances c1 = balances c2 \<Longrightarrow>
   fst (store_balances g toks c1) = fst (store_balances g toks c2)
   \<and> balances (snd (store_balances g toks c1)) = balances (snd (store_balances g toks c2))"
proof (induction toks arbitrary: c1 c2)
  case Nil
  then show ?case by simp
next
  case (Cons t toks)
  show ?case
  proof (cases "g t")
    case (Inl e)
    then show ?thesis using Cons.prems by simp
  next
    case (Inr b)
    have "balances (c1\<lparr>balances := Map_set (balances c1) t (balance_of t b)\<rparr>)
        = balances (c2\<lparr>balances := Map_set (balances c2) t (balance_of t b)\<rparr>)"
      using Cons.prems by simp
    from Cons.IH [OF this] show ?thesis using Inr by simp
  qed
qed

lemma store_orders_frame_ex:
  "store_orders ros c = (r, c') \<Longrightarrow> \<exists>m. c' = c\<lparr>orders := m\<rparr>"
proof (induction ros arbitrary: c)
  case Nil
  then have "c' = c\<lparr>orders := orders c\<rparr>" by simp
  then show ?case by blast
next
  case (Cons ro ros)
  show ?case
  proof (cases "toNumber (ro_timestamp ro)")
    case (Inl e)
    with Cons.prems have "c' = c\<lparr>orders := orders c\<rparr>" by simp
    then show ?thesis by blast
  next
    case (Inr ts)
    with Cons.prems
    have "store_orders ros (c\<lparr>orders := Map_set (orders c) (ro_id ro) (order_of ro ts)\<rparr>) = (r, c')"
      by simp
    from Cons.IH [OF this] obtain m
      where "c' = c\<lparr>orders := Map_set (orders c) (ro_id ro) (order_of ro ts)\<rparr>\<lparr>orders := m\<rparr>"
      by blast
    then have "c' = c\<lparr>orders := m\<rparr>" by simp
    then show ?thesis by blast
  qed
qed

lemma store_orders_frame:
  assumes "store_orders ros c = (r, c')"
  shows "c' = c\<lparr>orders := orders c'\<rparr>"
proof -
  from store_orders_frame_ex [OF assms] obtain m where m: "c' = c\<lparr>orders := m\<rparr>" by blast
  then have "orders c' = m" by simp
  with m show ?thesis by simp
qed

lemma store_orders_indep:
  "orders c1 = orders c2 \<Longrightarrow>
   fst (store_orders ros c1) = fst (store_orders ros c2)
   \<and> orders (snd (store_orders ros c1)) = orders (snd (store_orders ros c2))"
proof (induction ros arbitrary: c1 c2)
  case Nil
  then show ?case by simp
next
  case (Cons ro ros)
  show ?case
  proof (cases "toNumber (ro_timestamp ro)")
    case (Inl e)
    then show ?thesis using Cons.prems by simp
  next
    case (Inr ts)
    have "orders (c1\<lparr>orders := Map_set (orders c1) (ro_id ro) (order_of ro ts)\<rparr>)
        = orders (c2\<lparr>orders := Map_set (orders c2) (ro_id ro) (order_of ro ts)\<rparr>)"
      using Cons.prems by simp
    from Cons.IH [OF this] show ?thesis using Inr by simp
  qed
qed

lemma fetchMarkets_frame:
  "snd (fetchMarkets resp c) = c\<lparr>markets := markets (snd (fetchMarkets resp c))\<rparr>"
  by (cases resp) (simp_all add: fetchMarkets_def fetchMarkets_try_def Let_def)

lemma fetchBalances_frame:
  "snd (fetchBalances w c) = c\<lparr>balances := balances (snd (fetchBalances w c))\<rparr>"
proof -
  obtain r c' where st: "store_balances (bw_balance w) (projr (bw_tokens w)) c = (r, c')"
    by (cases "store_balances (bw_balance w) (projr (bw_tokens w)) c")
  from store_balances_frame [OF st] st show ?thesis
    by (auto simp: fetchBalances_def fetchBalances_try_def split: sum.splits prod.splits)
qed

lemma fetchBalances_indep:
  assumes "wallet c1 = wallet c2" "network c1 = network c2" "balances c1 = balances c2"
  shows "balances (snd (fetchBalances w c1)) = balances (snd (fetchBalances w c2))"
  using assms store_balances_indep [OF assms(3), of "bw_balance w" "projr (bw_tokens w)"]
  by (auto simp: fetchBalances_def fetchBalances_try_def split: sum.splits prod.splits)

lemma fetchPositions_frame:
  "snd (fetchPositions w c) = c\<lparr>positions := positions (snd (fetchPositions w c))\<rparr>"
  by (auto simp: fetchPositions_def fetchPositions_try_def Let_def split: sum.splits prod.splits)

lemma fetchPositions_indep:
  assumes "wallet c1 = wallet c2" "network c1 = network c2" "positions c1 = positions c2"
  shows "positions (snd (fetchPositions w c1)) = positions (snd (fetchPositions w c2))"
  using assms
  by (auto simp: fetchPositions_def fetchPositions_try_def Let_def split: sum.splits prod.splits)

lemma fetchOpenOrders_indep:
  assumes "wallet c1 = wallet c2" "network c1 = network c2" "orders c1 = orders c2"
  shows "orders (snd (fetchOpenOrders w c1)) = orders (snd (fetchOpenOrders w c2))"
  using assms store_orders_indep [OF assms(3), of "projr (ow_orders w)"]
  by (auto simp: fetchOpenOrders_def fetchOpenOrders_try_def split: sum.splits prod.splits)

lemma fetchOpenOrders_frame:
  "snd (fetchOpenOrders w c) = c\<lparr>orders := orders (snd (fetchOpenOrders w c))\<rparr>"
proof -
  obtain r c' where st: "store_orders (projr (ow_orders w)) c = (r, c')"
    by (cases "store_orders (projr (ow_orders w)) c")
  from store_orders_frame [OF st] st show ?thesis
    by (auto simp: fetchOpenOrders_def fetchOpenOrders_try_def split: sum.splits prod.splits)
qed

lemma roundtrip_core:
  assumes "bp < 2 ^ 50"
  shows "bp_of_leverage (leverage_of_bp bp) = of_nat bp"
proof (cases "bp = 0")
  case True
  have "\<lfloor>1 / 2 :: rat\<rfloor> = 0" by (rule floor_unique) simp_all
  with True show ?thesis
    by (simp add: bp_of_leverage_def leverage_of_bp_def js_div_def js_mul_def to_double_def
        Math_round_def)
next
  case False
  define B :: rat where "B = of_nat bp"
  define x1 where "x1 = to_double (B / 100)"
  define x2 where "x2 = to_double (x1 * 100)"
  have B1: "1 \<le> B" using False by (simp add: B_def)
  have "(of_nat bp :: rat) < of_nat (2 ^ 50)" using assms by (simp only: of_nat_less_iff)
  then have B2: "B < 1125899906842624" by (simp add: B_def)
  have "\<bar>x1 - B / 100\<bar> \<le> (B / 100) / 2 ^ 53"
    unfolding x1_def using B1 by (intro to_double_error) simp
  then have e1: "\<bar>x1 - B / 100\<bar> \<le> B / 100 / 9007199254740992" by simp
  have x1pos: "0 < x1" using e1 B1 by (simp only: abs_diff_le_iff) linarith
  have "\<bar>x2 - x1 * 100\<bar> \<le> (x1 * 100) / 2 ^ 53"
    unfolding x2_def using x1pos by (intro to_double_error) simp
  then have e2: "\<bar>x2 - x1 * 100\<bar> \<le> x1 * 100 / 9007199254740992" by simp
  from e1 have a1: "x1 \<le> B / 100 + B / 100 / 9007199254740992"
    and a2: "B / 100 - B / 100 / 9007199254740992 \<le> x1"
    by (simp_all only: abs_diff_le_iff)
  from e2 have a3: "x2 \<le> x1 * 100 + x1 * 100 / 9007199254740992"
    and a4: "x1 * 100 - x1 * 100 / 9007199254740992 \<le> x2"
    by (simp_all only: abs_diff_le_iff)
  have "B \<le> x2 + 1 / 2" using a2 a4 B1 B2 by linarith
  moreover have "x2 + 1 / 2 < B + 1" using a1 a3 B1 B2 by linarith
  ultimately have "of_int (int bp) \<le> x2 + 1 / 2" "x2 + 1 / 2 < of_int (int bp) + 1"
    by (simp_all add: B_def)
  then have "\<lfloor>x2 + 1 / 2\<rfloor> = int bp" by (simp add: floor_unique)
  then show ?thesis
    by (simp add: bp_of_leverage_def leverage_of_bp_def js_div_def js_mul_def Math_round_def
        x2_def x1_def B_def)
qed

lemma updatePositionLeverage_sent:
  "wallet c \<Longrightarrow> network c \<in> set evm_networks \<Longrightarrow>
   sent (snd (updatePositionLeverage w positionId newLeverage c))
     = sent c @ [UpdateLeverageCall positionId (bp_of_leverage newLeverage)]"
proof (cases w)
  case (Inl e)
  assume "wallet c" "network c \<in> set evm_networks"
  moreover obtain msg where "e = Error msg" by (cases e)
  ultimately show ?thesis using Inl
    by (simp add: updatePositionLeverage_def updatePositionLeverage_try_def)
next
  case (Inr txh)
  assume "wallet c" "network c \<in> set evm_networks"
  then show ?thesis using Inr
    by (simp add: updatePositionLeverage_def updatePositionLeverage_try_def Let_def
        split: option.splits)
qed

lemma createOrder_gives_client_42:
  "orders (snd (createOrder world_B request_B client0)) = orders client_42"
  by (simp add: createOrder_def createOrder_try_def request_B_def parse_price_B parse_amount_B
      Let_def client0_def world_B_def evm_networks_def Map_get_def find_OrderCreated_def
      client_42_def order_42_def)

lemma client_solana_42_facts:
  "orders client_solana_42 = [(JStr ''42'', order_42)]"
  "network client_solana_42 = ''solana''" "wallet client_solana_42"
  by (simp_all add: client_solana_42_def client_solana_def updateOrder_def Map_get_def getp_def
      spread_def order_42_def newOrder_of_def)


section \<open>Stale push updates (C1)\<close>

text \<open>
  C1, as stated, fails: \<^verbatim>\<open>updateOrder\<close> compares no sequence marker. Order 42 is
  stored open; the push update with \<open>sequence\<close> 2 sets status \<^verbatim>\<open>filled\<close> and filled
  \<^verbatim>\<open>1.5\<close>; the duplicate of the older push (\<open>sequence\<close> 1, status \<^verbatim>\<open>open\<close>) arrives
  afterwards and is merged like any other: the stored status is \<^verbatim>\<open>open\<close> again.
\<close>

theorem stale_update_counterexample:
  "stored (orders (handleWebSocketMessage push_fill client_42)) (JStr ''42'') ''status'' = JStr ''filled''
   \<and> stored (orders (handleWebSocketMessage push_fill client_42)) (JStr ''42'') ''filled'' = JStr ''1.5''
   \<and> stored (orders (handleWebSocketMessage push_fill client_42)) (JStr ''42'') ''sequence'' = JNum 2
   \<and> getp (msg_data push_stale) ''sequence'' = JNum 1
   \<and> stored (orders (handleWebSocketMessage push_stale (handleWebSocketMessage push_fill client_42)))
        (JStr ''42'') ''status'' = JStr ''open''
   \<and> orders (handleWebSocketMessage push_stale (handleWebSocketMessage push_fill client_42))
        \<noteq> orders (handleWebSocketMessage push_fill client_42)"
  apply (simp add: handleWebSocketMessage_def updateOrder_def push_fill_def push_stale_def
      client_42_def client0_def stored_def Map_get_def getp_def spread_def order_42_def
      newOrder_of_def)
  apply (auto simp: fun_eq_iff map_add_def dest!: fun_cong [where x = "''status''"])
  done

text \<open>
  C1, amended. \<^verbatim>\<open>updateOrder\<close>, which handles every push \<^verbatim>\<open>order_update\<close>, rejects
  nothing: whatever the age of the update, the record stored under its id becomes the
  old record overridden by the update. Every property the update carries takes the
  update's value, every other property keeps the stored value, and records under other
  keys are untouched. So an update leaves the orders map unchanged exactly when it
  agrees with the stored order on every property it carries.
\<close>

theorem updateOrder_overwrites:
  "handleWebSocketMessage \<lparr>msg_type = ''order_update'', msg_data = d\<rparr> c = updateOrder d c
   \<and> Map_get (orders (updateOrder d c)) (getp d ''id'')
       = Some (spread (Map_get (orders c) (getp d ''id'')) d)
   \<and> (\<forall>f v. d f = Some v \<longrightarrow> stored (orders (updateOrder d c)) (getp d ''id'') f = v)
   \<and> (\<forall>f. d f = None \<longrightarrow>
         stored (orders (updateOrder d c)) (getp d ''id'') f = stored (orders c) (getp d ''id'') f)
   \<and> (\<forall>k. k \<noteq> getp d ''id'' \<longrightarrow> Map_get (orders (updateOrder d c)) k = Map_get (orders c) k)
   \<and> (\<forall>old. distinct (map fst (orders c)) \<and> Map_get (orders c) (getp d ''id'') = Some old \<longrightarrow>
         (orders (updateOrder d c) = orders c) = (\<forall>f v. d f = Some v \<longrightarrow> old f = Some v))"
proof -
  have a: "handleWebSocketMessage \<lparr>msg_type = ''order_update'', msg_data = d\<rparr> c = updateOrder d c"
    by (simp add: handleWebSocketMessage_def)
  have b: "Map_get (orders (updateOrder d c)) (getp d ''id'')
       = Some (spread (Map_get (orders c) (getp d ''id'')) d)"
    by (simp add: updateOrder_def Map_get_set)
  have c1: "\<forall>f v. d f = Some v \<longrightarrow> stored (orders (updateOrder d c)) (getp d ''id'') f = v"
    by (simp add: updateOrder_stored getp_spread_carried)
  have c2: "\<forall>f. d f = None \<longrightarrow>
         stored (orders (updateOrder d c)) (getp d ''id'') f = stored (orders c) (getp d ''id'') f"
  proof (intro allI impI)
    fix f
    assume n: "d f = None"
    have "getp (spread (Map_get (orders c) (getp d ''id'')) d) f = stored (orders c) (getp d ''id'') f"
      using n by (cases "Map_get (orders c) (getp d ''id'')")
        (simp_all add: stored_def getp_spread_kept getp_spread_none)
    then show "stored (orders (updateOrder d c)) (getp d ''id'') f = stored (orders c) (getp d ''id'') f"
      by (simp add: updateOrder_stored)
  qed
  have e: "\<forall>k. k \<noteq> getp d ''id'' \<longrightarrow> Map_get (orders (updateOrder d c)) k = Map_get (orders c) k"
    by (simp add: updateOrder_def Map_get_set)
  have g: "\<forall>old. distinct (map fst (orders c)) \<and> Map_get (orders c) (getp d ''id'') = Some old \<longrightarrow>
         (orders (updateOrder d c) = orders c) = (\<forall>f v. d f = Some v \<longrightarrow> old f = Some v)"
  proof (intro allI impI)
    fix old
    assume h: "distinct (map fst (orders c)) \<and> Map_get (orders c) (getp d ''id'') = Some old"
    from h have dist: "distinct (map fst (orders c))"
      and got: "Map_get (orders c) (getp d ''id'') = Some old" by simp_all
    have "(orders (updateOrder d c) = orders c)
        = (Map_set (orders c) (getp d ''id'') (spread (Some old) d) = orders c)"
      by (simp add: updateOrder_def got)
    also have "\<dots> = (Map_get (orders c) (getp d ''id'') = Some (spread (Some old) d))"
      by (rule Map_set_unchanged_iff [OF dist])
    also have "\<dots> = (spread (Some old) d = old)"
      by (auto simp: got)
    also have "\<dots> = (\<forall>f v. d f = Some v \<longrightarrow> old f = Some v)"
      by (rule spread_same_iff)
    finally show "(orders (updateOrder d c) = orders c) = (\<forall>f v. d f = Some v \<longrightarrow> old f = Some v)" .
  qed
  from a b c1 c2 e g show ?thesis by blast
qed

text \<open>
  The amended C1 at the fill of order 42: the carried status and filled amount are
  stored, the price is kept, and the map has changed.
\<close>

theorem updateOrder_overwrites_witness:
  "distinct (map fst (orders client_42)) \<and> Map_get (orders client_42) (JStr ''42'') = Some order_42
   \<and> msg_data push_fill ''status'' = Some (JStr ''filled'')
   \<and> order_42 ''status'' = Some (JStr ''open'')
   \<and> stored (orders (updateOrder (msg_data push_fill) client_42)) (JStr ''42'') ''status'' = JStr ''filled''
   \<and> stored (orders (updateOrder (msg_data push_fill) client_42)) (JStr ''42'') ''filled'' = JStr ''1.5''
   \<and> stored (orders (updateOrder (msg_data push_fill) client_42)) (JStr ''42'') ''price'' = JStr ''1720.50''
   \<and> orders (updateOrder (msg_data push_fill) client_42) \<noteq> orders client_42"
proof -
  have id: "getp (msg_data push_fill) ''id'' = JStr ''42''"
    by (simp add: push_fill_def getp_def)
  have h1: "distinct (map fst (orders client_42))" by (simp add: client_42_def)
  have h2: "Map_get (orders client_42) (JStr ''42'') = Some order_42"
    by (simp add: client_42_def Map_get_def)
  have h3: "msg_data push_fill ''status'' = Some (JStr ''filled'')"
    and h4: "msg_data push_fill ''filled'' = Some (JStr ''1.5'')"
    and h5: "msg_data push_fill ''price'' = None"
    by (simp_all add: push_fill_def)
  have h6: "order_42 ''status'' = Some (JStr ''open'')"
    and h7: "getp order_42 ''price'' = JStr ''1720.50''"
    by (simp_all add: order_42_def newOrder_of_def request_B_def getp_def)
  have h8: "stored (orders client_42) (JStr ''42'') ''price'' = JStr ''1720.50''"
    using h2 h7 by (simp add: stored_def)
  from updateOrder_overwrites [of "msg_data push_fill" client_42] id h1 h2 h3 h4 h5 h6 h8
  show ?thesis by auto
qed

section \<open>Fill and status monotonicity (C2)\<close>

text \<open>
  C2, as stated, fails. Order 42 is stored with status \<^verbatim>\<open>filled\<close>, filled 1.5 of
  amount 1.5. The update \<^verbatim>\<open>{id: "42", status: "open", filled: "0.5"}\<close> is accepted:
  the terminal status goes back to \<^verbatim>\<open>open\<close> and filled drops from 1.5 to 0.5. The
  update \<^verbatim>\<open>{id: "42", filled: "9"}\<close> is accepted too and leaves filled above amount.
\<close>

theorem order_update_counterexample:
  "fill_ok (record_at (orders client_42_filled) (JStr ''42''))
   \<and> terminal (getp (record_at (orders client_42_filled) (JStr ''42'')) ''status'')
   \<and> decimal18 (getp (record_at (orders client_42_filled) (JStr ''42'')) ''filled'')
        = Some 1500000000000000000
   \<and> getp (record_at (orders (handleWebSocketMessage push_regress client_42_filled)) (JStr ''42''))
        ''status'' = JStr ''open''
   \<and> decimal18 (getp (record_at (orders (handleWebSocketMessage push_regress client_42_filled))
        (JStr ''42'')) ''filled'') = Some 500000000000000000
   \<and> \<not> fill_ok (record_at (orders (handleWebSocketMessage push_overfill client_42_filled))
        (JStr ''42''))"
  by (simp add: handleWebSocketMessage_def updateOrder_def client_42_filled_orders push_regress_def
      push_overfill_def push_fill_def record_at_def Map_get_def getp_def spread_field order_42_def
      newOrder_of_def request_B_def fill_ok_def terminal_def dec_simps)

text \<open>
  C2, amended. An order update changes \<open>filled\<close>, \<open>amount\<close> and \<open>status\<close> of the order
  under its id only to the values it carries itself, and keeps each of the three it
  does not carry; an update for another id leaves the order as it is. So
  \<open>0 \<le> filled \<le> amount\<close> is preserved by every update that carries neither \<open>filled\<close>
  nor \<open>amount\<close>, and a terminal status by every update that carries no \<open>status\<close>; no
  bound is enforced on a carried value. \<^verbatim>\<open>cancelOrder\<close>, whatever its outcome, leaves
  \<open>filled\<close> and \<open>amount\<close> as they are.
\<close>

theorem order_update_fields:
  assumes "Map_get (orders c) k = Some old"
  shows "(getp d ''id'' = k \<longrightarrow>
           (\<exists>new. Map_get (orders (updateOrder d c)) k = Some new
             \<and> (\<forall>f \<in> set [''filled'', ''amount'', ''status''].
                   getp new f = (case d f of None \<Rightarrow> getp old f | Some v \<Rightarrow> v))
             \<and> (d ''filled'' = None \<and> d ''amount'' = None \<longrightarrow> fill_ok new = fill_ok old)
             \<and> (d ''status'' = None \<and> terminal (getp old ''status'')
                  \<longrightarrow> getp new ''status'' = getp old ''status'')))
       \<and> (getp d ''id'' \<noteq> k \<longrightarrow> Map_get (orders (updateOrder d c)) k = Some old)
       \<and> (\<exists>new. Map_get (orders (snd (cancelOrder w k c))) k = Some new
             \<and> getp new ''filled'' = getp old ''filled''
             \<and> getp new ''amount'' = getp old ''amount'')"
proof -
  have a: "getp d ''id'' = k \<longrightarrow>
           (\<exists>new. Map_get (orders (updateOrder d c)) k = Some new
             \<and> (\<forall>f \<in> set [''filled'', ''amount'', ''status''].
                   getp new f = (case d f of None \<Rightarrow> getp old f | Some v \<Rightarrow> v))
             \<and> (d ''filled'' = None \<and> d ''amount'' = None \<longrightarrow> fill_ok new = fill_ok old)
             \<and> (d ''status'' = None \<and> terminal (getp old ''status'')
                  \<longrightarrow> getp new ''status'' = getp old ''status''))"
  proof
    assume id: "getp d ''id'' = k"
    have new: "Map_get (orders (updateOrder d c)) k = Some (spread (Some old) d)"
      using assms id by (simp add: updateOrder_def Map_get_set)
    have f: "getp (spread (Some old) d) f = (case d f of None \<Rightarrow> getp old f | Some v \<Rightarrow> v)" for f
      by (simp add: getp_def spread_field split: option.splits)
    show "\<exists>new. Map_get (orders (updateOrder d c)) k = Some new
             \<and> (\<forall>f \<in> set [''filled'', ''amount'', ''status''].
                   getp new f = (case d f of None \<Rightarrow> getp old f | Some v \<Rightarrow> v))
             \<and> (d ''filled'' = None \<and> d ''amount'' = None \<longrightarrow> fill_ok new = fill_ok old)
             \<and> (d ''status'' = None \<and> terminal (getp old ''status'')
                  \<longrightarrow> getp new ''status'' = getp old ''status'')"
      using new by (auto simp: f fill_ok_def split: option.splits)
  qed
  have b: "getp d ''id'' \<noteq> k \<longrightarrow> Map_get (orders (updateOrder d c)) k = Some old"
    using assms by (simp add: updateOrder_def Map_get_set)
  obtain r c' where res: "cancelOrder w k c = (r, c')" by (cases "cancelOrder w k c")
  from cancelOrder_orders [OF res assms]
  have e: "\<exists>new. Map_get (orders (snd (cancelOrder w k c))) k = Some new
             \<and> getp new ''filled'' = getp old ''filled''
             \<and> getp new ''amount'' = getp old ''amount''"
    using assms by (auto simp: res Map_get_set getp_def)
  from a b e show ?thesis by blast
qed

text \<open>
  The amended C2 at the fill of order 42 (the update carries no amount), and at a
  cancellation of the open order.
\<close>

theorem order_update_fields_witness:
  "Map_get (orders client_42) (JStr ''42'') = Some order_42
   \<and> getp (msg_data push_fill) ''id'' = JStr ''42''
   \<and> msg_data push_fill ''amount'' = None
   \<and> getp (record_at (orders (updateOrder (msg_data push_fill) client_42)) (JStr ''42'')) ''filled''
        = JStr ''1.5''
   \<and> getp (record_at (orders (updateOrder (msg_data push_fill) client_42)) (JStr ''42'')) ''amount''
        = JStr ''1.5''
   \<and> getp (record_at (orders (updateOrder (msg_data push_fill) client_42)) (JStr ''42'')) ''status''
        = JStr ''filled''
   \<and> getp (record_at (orders (snd (cancelOrder (Inr ''0xc1'') (JStr ''42'') client_42))) (JStr ''42''))
        ''filled'' = JStr ''0''"
proof -
  have h: "Map_get (orders client_42) (JStr ''42'') = Some order_42"
    by (simp add: client_42_def Map_get_def)
  have id: "getp (msg_data push_fill) ''id'' = JStr ''42''"
    by (simp add: push_fill_def getp_def)
  have d: "msg_data push_fill ''amount'' = None"
    "msg_data push_fill ''filled'' = Some (JStr ''1.5'')"
    "msg_data push_fill ''status'' = Some (JStr ''filled'')"
    by (simp_all add: push_fill_def)
  have o: "getp order_42 ''amount'' = JStr ''1.5''" "getp order_42 ''filled'' = JStr ''0''"
    by (simp_all add: order_42_def newOrder_of_def request_B_def getp_def)
  from order_update_fields [OF h, of "msg_data push_fill" "Inr ''0xc1''"] id d o h
  show ?thesis by (auto simp: record_at_def)
qed

section \<open>Balance equation (C3)\<close>

text \<open>
  C3, as stated, fails. A first \<^verbatim>\<open>balance_update\<close> stores free 10, locked 5, total 15
  for USDC, which satisfies the equation. A second one carries only \<^verbatim>\<open>free: "7"\<close>; it
  is merged, and the stored record reads free 7, locked 5, total 15.
\<close>

theorem balance_update_counterexample:
  "balance_ok (record_at (balances (handleWebSocketMessage push_balance_full client0)) (JStr ''USDC''))
   \<and> \<not> balance_ok (record_at (balances (handleWebSocketMessage push_balance_free
          (handleWebSocketMessage push_balance_full client0))) (JStr ''USDC''))"
  by (simp add: handleWebSocketMessage_def updateBalance_def push_balance_full_def
      push_balance_free_def client0_def record_at_def Map_get_def getp_def spread_field
      balance_ok_def dec_simps2)

text \<open>
  C3, amended. The client never checks the equation; it stores what it is given.
  \<^verbatim>\<open>updateBalance\<close> stores the old record overridden by the update and touches no
  other token: after it, \<open>total = free + locked\<close> holds for the stored record exactly
  when it holds for the update, if the update carries all three of \<open>free\<close>, \<open>locked\<close>
  and \<open>total\<close>, and exactly when it held before, if the update carries none of them.
  A \<^verbatim>\<open>fetchBalances\<close> whose calls all succeed stores, for every token of the list, the
  three amounts the vault reports, and the equation holds for such a record exactly
  when it holds for the reported amounts.
\<close>

theorem balance_update_merge:
  "Map_get (balances (updateBalance d c)) (getp d ''token'')
     = Some (spread (Map_get (balances c) (getp d ''token'')) d)
   \<and> (\<forall>k. k \<noteq> getp d ''token'' \<longrightarrow> Map_get (balances (updateBalance d c)) k = Map_get (balances c) k)
   \<and> (d ''free'' \<noteq> None \<and> d ''locked'' \<noteq> None \<and> d ''total'' \<noteq> None \<longrightarrow>
        balance_ok (record_at (balances (updateBalance d c)) (getp d ''token'')) = balance_ok d)
   \<and> (d ''free'' = None \<and> d ''locked'' = None \<and> d ''total'' = None \<longrightarrow>
        balance_ok (record_at (balances (updateBalance d c)) (getp d ''token''))
          = balance_ok (record_at (balances c) (getp d ''token'')))
   \<and> (wallet c \<and> network c \<in> set evm_networks \<and> \<not> balances_failure w \<longrightarrow>
        (\<forall>toks tok. bw_tokens w = Inr toks \<and> tok \<in> set toks \<longrightarrow>
           (\<exists>b. bw_balance w tok = Inr b
              \<and> Map_get (balances (snd (fetchBalances w c))) tok = Some (balance_of tok b)
              \<and> balance_ok (balance_of tok b) = (rb_total b = rb_free b + rb_locked b))))"
proof -
  have a: "Map_get (balances (updateBalance d c)) (getp d ''token'')
     = Some (spread (Map_get (balances c) (getp d ''token'')) d)"
    by (simp add: updateBalance_def Map_get_set)
  have b: "\<forall>k. k \<noteq> getp d ''token'' \<longrightarrow> Map_get (balances (updateBalance d c)) k = Map_get (balances c) k"
    by (simp add: updateBalance_def Map_get_set)
  have r: "record_at (balances (updateBalance d c)) (getp d ''token'')
      = spread (Map_get (balances c) (getp d ''token'')) d"
    by (simp add: record_at_def a)
  have e: "d ''free'' \<noteq> None \<and> d ''locked'' \<noteq> None \<and> d ''total'' \<noteq> None \<longrightarrow>
        balance_ok (record_at (balances (updateBalance d c)) (getp d ''token'')) = balance_ok d"
  proof
    assume h: "d ''free'' \<noteq> None \<and> d ''locked'' \<noteq> None \<and> d ''total'' \<noteq> None"
    have "getp (spread a d) f = getp d f" if "d f \<noteq> None" for a f
      using that by (auto simp: getp_def spread_field)
    with h show "balance_ok (record_at (balances (updateBalance d c)) (getp d ''token'')) = balance_ok d"
      unfolding r by (intro balance_ok_cong) simp_all
  qed
  have g: "d ''free'' = None \<and> d ''locked'' = None \<and> d ''total'' = None \<longrightarrow>
        balance_ok (record_at (balances (updateBalance d c)) (getp d ''token''))
          = balance_ok (record_at (balances c) (getp d ''token''))"
  proof
    assume h: "d ''free'' = None \<and> d ''locked'' = None \<and> d ''total'' = None"
    have "getp (spread (Map_get (balances c) k) d) f = getp (record_at (balances c) k) f"
      if "d f = None" for k f
      using that by (auto simp: getp_def spread_field record_at_def split: option.splits)
    with h show "balance_ok (record_at (balances (updateBalance d c)) (getp d ''token''))
          = balance_ok (record_at (balances c) (getp d ''token''))"
      unfolding r by (intro balance_ok_cong) simp_all
  qed
  have f: "wallet c \<and> network c \<in> set evm_networks \<and> \<not> balances_failure w \<longrightarrow>
        (\<forall>toks tok. bw_tokens w = Inr toks \<and> tok \<in> set toks \<longrightarrow>
           (\<exists>b. bw_balance w tok = Inr b
              \<and> Map_get (balances (snd (fetchBalances w c))) tok = Some (balance_of tok b)
              \<and> balance_ok (balance_of tok b) = (rb_total b = rb_free b + rb_locked b)))"
    using fetchBalances_stored [of c w] balance_ok_balance_of by blast
  from a b e g f show ?thesis by blast
qed

text \<open>
  The amended C3 at the full balance update for USDC on a client with no balances, and
  at a fetch of that token whose reported amounts are 10, 5 and 15.
\<close>

theorem balance_update_merge_witness:
  "msg_data push_balance_full ''free'' \<noteq> None \<and> msg_data push_balance_full ''locked'' \<noteq> None
   \<and> msg_data push_balance_full ''total'' \<noteq> None \<and> balance_ok (msg_data push_balance_full)
   \<and> balance_ok (record_at (balances (updateBalance (msg_data push_balance_full) client0)) (JStr ''USDC''))
   \<and> Map_get (balances (updateBalance (msg_data push_balance_full) client0)) (JStr ''ETH'') = None
   \<and> wallet client0 \<and> network client0 \<in> set evm_networks \<and> \<not> balances_failure balances_world_ok
   \<and> bw_tokens balances_world_ok = Inr [JStr ''USDC'']
   \<and> balance_ok (record_at (balances (snd (fetchBalances balances_world_ok client0))) (JStr ''USDC''))"
proof -
  have t: "getp (msg_data push_balance_full) ''token'' = JStr ''USDC''"
    by (simp add: push_balance_full_def getp_def)
  have h: "msg_data push_balance_full ''free'' \<noteq> None" "msg_data push_balance_full ''locked'' \<noteq> None"
    "msg_data push_balance_full ''total'' \<noteq> None"
    by (simp_all add: push_balance_full_def)
  have ok: "balance_ok (msg_data push_balance_full)"
    by (simp add: balance_ok_def push_balance_full_def getp_def dec_simps2)
  have e: "Map_get (balances client0) (JStr ''ETH'') = None"
    by (simp add: client0_def Map_get_def)
  have w: "wallet client0" "network client0 \<in> set evm_networks"
    by (simp_all add: client0_def evm_networks_def)
  have nf: "\<not> balances_failure balances_world_ok"
    by (simp add: balances_failure_def balances_world_ok_def)
  have tk: "bw_tokens balances_world_ok = Inr [JStr ''USDC'']"
    and bl: "bw_balance balances_world_ok (JStr ''USDC'')
       = Inr \<lparr>rb_free = 10000000000000000000, rb_locked = 5000000000000000000,
               rb_total = 15000000000000000000\<rparr>"
    by (simp_all add: balances_world_ok_def)
  from balance_update_merge [of "msg_data push_balance_full" client0 balances_world_ok]
    t h ok e w nf tk bl
  show ?thesis by (auto simp: record_at_def)
qed

section \<open>Order-type table (C4)\<close>

text \<open>
  C4 (failing case). Encoding \<^verbatim>\<open>'market'\<close> gives 1, not 0, because the table entry 0 is
  falsy and \<^verbatim>\<open>|| 1\<close> replaces it; decoding 1 gives \<^verbatim>\<open>'limit'\<close>. So the round trip
  of \<^verbatim>\<open>'market'\<close> ends at \<^verbatim>\<open>'limit'\<close>.
\<close>

theorem getOrderTypeId_market_is_limit:
  "getOrderTypeId ''market'' = 1 \<and> getOrderTypeName (getOrderTypeId ''market'') = ''limit''"
  by (simp add: getOrderTypeId_def getOrderTypeName_def typeMap_def typeNames_def)

text \<open>
  The rest of the table behaves as C4 says: the other four names round-trip, and an id
  outside 0..4 decodes to \<^verbatim>\<open>'unknown'\<close>.
\<close>

lemma order_type_table_rest:
  "getOrderTypeName (getOrderTypeId ''limit'') = ''limit''"
  "getOrderTypeName (getOrderTypeId ''stop'') = ''stop''"
  "getOrderTypeName (getOrderTypeId ''stopLimit'') = ''stopLimit''"
  "getOrderTypeName (getOrderTypeId ''trailingStop'') = ''trailingStop''"
  "i < 0 \<or> 4 < i \<Longrightarrow> getOrderTypeName i = ''unknown''"
  by (auto simp: getOrderTypeId_def getOrderTypeName_def typeMap_def typeNames_def)

section \<open>Order creation, scenario B (C5)\<close>




section \<open>Cancelling an order that is not stored (C6)\<close>

text \<open>
  C6, as stated, fails. On a client with an empty orders map, \<^verbatim>\<open>cancelOrder("99")\<close>
  issues the contract call and returns success, and the orders map still has no record
  under 99: the local update stands under \<^verbatim>\<open>if (order)\<close>.
\<close>

theorem cancelOrder_absent_counterexample:
  "fst (cancelOrder (Inr ''0xc1'') (JStr ''99'') client_empty)
     = Inr (Some [''success'' \<mapsto> JBool True, ''orderId'' \<mapsto> JStr ''99'', ''txHash'' \<mapsto> JStr ''0xc1''])
   \<and> sent (snd (cancelOrder (Inr ''0xc1'') (JStr ''99'') client_empty)) = [CancelOrderCall (JStr ''99'')]
   \<and> Map_get (orders (snd (cancelOrder (Inr ''0xc1'') (JStr ''99'') client_empty))) (JStr ''99'') = None"
  by (simp add: cancelOrder_def cancelOrder_try_def client_empty_def evm_networks_def Map_get_def)

text \<open>
  C6, amended. With a wallet bound on an EVM network, \<^verbatim>\<open>cancelOrder\<close> of an id that
  is absent from the orders map still issues the contract call; when the call succeeds
  it returns \<^verbatim>\<open>{success: true, orderId, txHash}\<close> and leaves the orders map as it was,
  with no record under the id.
\<close>

theorem cancelOrder_absent:
  assumes "wallet c" and "network c \<in> set evm_networks" and "Map_get (orders c) orderId = None"
  shows "sent (snd (cancelOrder w orderId c)) = sent c @ [CancelOrderCall orderId]
    \<and> (\<forall>txh. w = Inr txh \<longrightarrow>
          cancelOrder w orderId c =
            (Inr (Some [''success'' \<mapsto> JBool True, ''orderId'' \<mapsto> orderId, ''txHash'' \<mapsto> JStr txh]),
             c\<lparr>sent := sent c @ [CancelOrderCall orderId]\<rparr>)
          \<and> orders (snd (cancelOrder w orderId c)) = orders c
          \<and> Map_get (orders (snd (cancelOrder w orderId c))) orderId = None)"
proof (cases w)
  case (Inl e)
  obtain msg where "e = Error msg" by (cases e)
  with Inl assms show ?thesis
    by (simp add: cancelOrder_def cancelOrder_try_def)
next
  case (Inr txh)
  with assms show ?thesis
    by (simp add: cancelOrder_def cancelOrder_try_def)
qed

text \<open>The amended C6 at the empty client and id 99.\<close>

theorem cancelOrder_absent_witness:
  "wallet client_empty \<and> network client_empty \<in> set evm_networks
   \<and> Map_get (orders client_empty) (JStr ''99'') = None
   \<and> sent (snd (cancelOrder (Inr ''0xc1'') (JStr ''99'') client_empty)) = [CancelOrderCall (JStr ''99'')]
   \<and> orders (snd (cancelOrder (Inr ''0xc1'') (JStr ''99'') client_empty)) = []"
  using cancelOrder_absent [of client_empty "JStr ''99''" "Inr ''0xc1''"]
  by (simp add: client_empty_def evm_networks_def Map_get_def)

section \<open>Errors of order creation (C7)\<close>

text \<open>
  C7, as stated, fails. On the \<^verbatim>\<open>solana\<close> network the market is never looked up:
  with a wallet bound and no market stored, \<^verbatim>\<open>createOrder\<close> returns an order instead
  of failing.
\<close>

theorem createOrder_market_missing_counterexample:
  "Map_get (markets client_solana) (JStr (market request_B)) = None
   \<and> wallet client_solana
   \<and> \<not> isl (fst (createOrder world_B request_B client_solana))"
  by (simp add: createOrder_def createOrder_try_def client_solana_def evm_networks_def Map_get_def)

text \<open>
  C7, amended. Without a wallet, \<^verbatim>\<open>createOrder\<close> throws
  \<^verbatim>\<open>Error('Wallet not connected')\<close> on every network. With a wallet on an EVM network
  and the market symbol absent from the markets map it throws
  \<^verbatim>\<open>Error('Failed to create order: Market <symbol> not found')\<close>. Both are plain
  \<^verbatim>\<open>Error\<close> objects that differ in their message only. In both cases the client state,
  the orders map included, is unchanged and no contract call is issued.
\<close>

theorem createOrder_errors:
  "(\<not> wallet c \<longrightarrow> createOrder w p c = (Inl (Error ''Wallet not connected''), c))
   \<and> (wallet c \<and> network c \<in> set evm_networks \<and> Map_get (markets c) (JStr (market p)) = None
        \<longrightarrow> createOrder w p c
              = (Inl (Error (''Failed to create order: Market '' @ market p @ '' not found'')), c))"
  by (simp add: createOrder_def createOrder_try_def)

text \<open>
  The amended C7 at the example client without its wallet, and at the client that knows
  no market.
\<close>

theorem createOrder_errors_witness:
  "\<not> wallet client_nowallet
   \<and> fst (createOrder world_B request_B client_nowallet) = Inl (Error ''Wallet not connected'')
   \<and> orders (snd (createOrder world_B request_B client_nowallet)) = orders client_nowallet
   \<and> wallet client_empty \<and> network client_empty \<in> set evm_networks
   \<and> Map_get (markets client_empty) (JStr (market request_B)) = None
   \<and> fst (createOrder world_B request_B client_empty)
       = Inl (Error ''Failed to create order: Market ETH-USDC not found'')
   \<and> orders (snd (createOrder world_B request_B client_empty)) = orders client_empty"
  using createOrder_errors [of client_nowallet world_B request_B]
    createOrder_errors [of client_empty world_B request_B]
  by (simp add: client_nowallet_def client0_def client_empty_def evm_networks_def Map_get_def
      request_B_def)

section \<open>Fetch failures (C8)\<close>

text \<open>
  C8. Each of the four fetches returns a list and never an exception. \<^verbatim>\<open>fetchMarkets\<close>
  returns the empty list when its request fails. \<^verbatim>\<open>fetchBalances\<close>,
  \<^verbatim>\<open>fetchPositions\<close> and \<^verbatim>\<open>fetchOpenOrders\<close> return the empty list when no wallet is
  bound, and when a call of their \<^verbatim>\<open>try\<close> body fails (a body makes calls on EVM
  networks only).
\<close>

theorem fetch_failure_returns_empty:
  "(isl resp \<longrightarrow> fst (fetchMarkets resp c) = []) \<and>
   (\<not> wallet c \<or> (network c \<in> set evm_networks \<and> balances_failure bw)
      \<longrightarrow> fst (fetchBalances bw c) = []) \<and>
   (\<not> wallet c \<or> (network c \<in> set evm_networks \<and> positions_failure pw)
      \<longrightarrow> fst (fetchPositions pw c) = []) \<and>
   (\<not> wallet c \<or> (network c \<in> set evm_networks \<and> orders_failure ow)
      \<longrightarrow> fst (fetchOpenOrders ow c) = [])"
proof -
  have m: "isl resp \<longrightarrow> fst (fetchMarkets resp c) = []"
    by (cases resp) (simp_all add: fetchMarkets_def fetchMarkets_try_def)
  have b: "\<not> wallet c \<longrightarrow> fst (fetchBalances bw c) = []"
    by (simp add: fetchBalances_def)
  have p: "\<not> wallet c \<longrightarrow> fst (fetchPositions pw c) = []"
    by (simp add: fetchPositions_def)
  have ord: "\<not> wallet c \<longrightarrow> fst (fetchOpenOrders ow c) = []"
    by (simp add: fetchOpenOrders_def)
  show ?thesis
    using m b p ord fetchBalances_failure [of c bw] fetchPositions_failure [of c pw]
      fetchOpenOrders_failure [of c ow]
    by blast
qed

text \<open>
  C8 at the example client: the market request times out, the balance of the second
  token fails, the positions call fails, the wallet refuses its address to the orders
  fetch; and at the client without a wallet.
\<close>

theorem fetch_failure_returns_empty_witness:
  "isl (Inl (Error ''timeout'') :: js_error + jsobj list)
   \<and> wallet client0 \<and> network client0 \<in> set evm_networks
   \<and> balances_failure balances_world_fail \<and> positions_failure positions_world_fail
   \<and> orders_failure orders_world_fail
   \<and> fst (fetchMarkets (Inl (Error ''timeout'')) client0) = []
   \<and> fst (fetchBalances balances_world_fail client0) = []
   \<and> fst (fetchPositions positions_world_fail client0) = []
   \<and> fst (fetchOpenOrders orders_world_fail client0) = []
   \<and> \<not> wallet client_nowallet
   \<and> fst (fetchBalances balances_world_fail client_nowallet) = []"
  using fetch_failure_returns_empty [of "Inl (Error ''timeout'')" client0 balances_world_fail
      positions_world_fail orders_world_fail]
    fetch_failure_returns_empty [of "Inl (Error ''timeout'')" client_nowallet balances_world_fail
      positions_world_fail orders_world_fail]
  by (simp add: client0_def client_nowallet_def evm_networks_def balances_failure_def
      positions_failure_def orders_failure_def balances_world_fail_def positions_world_fail_def
      orders_world_fail_def)

text \<open>
  Bootstrap: after \<^verbatim>\<open>initialize\<close>, each map is what its own fetch makes of it,
  whatever happened to the other three fetches.
\<close>

lemma initialize_categories:
  "markets (initialize resp bw pw ow c) = markets (snd (fetchMarkets resp c))"
  "balances (initialize resp bw pw ow c) = balances (snd (fetchBalances bw c))"
  "positions (initialize resp bw pw ow c) = positions (snd (fetchPositions pw c))"
  "orders (initialize resp bw pw ow c) = orders (snd (fetchOpenOrders ow c))"
proof -
  define c1 where "c1 = snd (fetchMarkets resp c)"
  define c2 where "c2 = snd (fetchBalances bw c1)"
  define c3 where "c3 = snd (fetchPositions pw c2)"
  define c4 where "c4 = snd (fetchOpenOrders ow c3)"
  have i: "initialize resp bw pw ow c = c4"
    by (simp add: initialize_def c1_def c2_def c3_def c4_def)
  have f1: "c1 = c\<lparr>markets := markets c1\<rparr>" unfolding c1_def by (rule fetchMarkets_frame)
  have f2: "c2 = c1\<lparr>balances := balances c2\<rparr>" unfolding c2_def by (rule fetchBalances_frame)
  have f3: "c3 = c2\<lparr>positions := positions c3\<rparr>" unfolding c3_def by (rule fetchPositions_frame)
  have f4: "c4 = c3\<lparr>orders := orders c4\<rparr>" unfolding c4_def by (rule fetchOpenOrders_frame)
  have w1: "wallet c1 = wallet c" "network c1 = network c" "balances c1 = balances c"
    "positions c1 = positions c" "orders c1 = orders c"
    by (subst f1, simp)+
  have w2: "wallet c2 = wallet c" "network c2 = network c" "markets c2 = markets c1"
    "positions c2 = positions c" "orders c2 = orders c"
    by (subst f2, simp add: w1)+
  have w3: "wallet c3 = wallet c" "network c3 = network c" "markets c3 = markets c1"
    "balances c3 = balances c2" "orders c3 = orders c"
    by (subst f3, simp add: w2)+
  have w4: "markets c4 = markets c1" "balances c4 = balances c2" "positions c4 = positions c3"
    by (subst f4, simp add: w3)+
  show "markets (initialize resp bw pw ow c) = markets (snd (fetchMarkets resp c))"
    by (simp add: i w4 c1_def)
  show "balances (initialize resp bw pw ow c) = balances (snd (fetchBalances bw c))"
    unfolding i w4 c2_def by (rule fetchBalances_indep) (simp_all add: w1)
  show "positions (initialize resp bw pw ow c) = positions (snd (fetchPositions pw c))"
    unfolding i w4 c3_def by (rule fetchPositions_indep) (simp_all add: w2)
  show "orders (initialize resp bw pw ow c) = orders (snd (fetchOpenOrders ow c))"
    unfolding i c4_def by (rule fetchOpenOrders_indep) (simp_all add: w3)
qed

section \<open>Leverage round trip (C9)\<close>

text \<open>
  C9, as stated, fails: the division and the multiplication are binary64 operations,
  and for the integer 3908134642837720 (below \<open>2^53\<close>, so a number holds it exactly)
  \<^verbatim>\<open>(bp / 100) * 100\<close> is 3908134642837720.5, which \<^verbatim>\<open>Math.round\<close> takes up to
  3908134642837721.
\<close>

theorem leverage_roundtrip_counterexample:
  "bp_of_leverage (leverage_of_bp 3908134642837720) = 3908134642837721"
  unfolding bp_of_leverage_def leverage_of_bp_def of_nat_numeral by (rule roundtrip_fails_eval)

text \<open>
  C9, amended. For every basis-point value \<open>bp\<close> with \<open>0 \<le> bp < 2^50\<close>,
  \<^verbatim>\<open>Math.round((bp / 100) * 100)\<close> is \<open>bp\<close>: each of the two operations has a relative
  error of at most \<open>2^-53\<close>, which keeps the product within one half of \<open>bp\<close>. So the
  leverage that \<^verbatim>\<open>fetchPositions\<close> stores for a position of \<open>bp\<close> basis points is sent
  back to the margin contract by \<^verbatim>\<open>updatePositionLeverage\<close> as \<open>bp\<close>.
\<close>

theorem leverage_roundtrip:
  assumes "bp < 2 ^ 50"
  shows "bp_of_leverage (leverage_of_bp bp) = of_nat bp
    \<and> (rp_leverage rp = bp \<longrightarrow> getp (position_of rp) ''leverage'' = JNum (leverage_of_bp bp))
    \<and> (wallet c \<and> network c \<in> set evm_networks \<longrightarrow>
          sent (snd (updatePositionLeverage w positionId (leverage_of_bp bp) c))
            = sent c @ [UpdateLeverageCall positionId (of_nat bp)])"
  using roundtrip_core [OF assms] updatePositionLeverage_sent [of c w positionId "leverage_of_bp bp"]
  by (auto simp: position_of_def getp_def)

text \<open>
  The amended C9 at 250 basis points: leverage 2.5 and back, for position 7 of the
  example client.
\<close>

theorem leverage_roundtrip_witness:
  "(250::nat) < 2 ^ 50 \<and> leverage_of_bp 250 = 5 / 2 \<and> bp_of_leverage (5 / 2) = 250
   \<and> rp_leverage raw_position_7 = 250
   \<and> getp (position_of raw_position_7) ''leverage'' = JNum (5 / 2)
   \<and> wallet client0 \<and> network client0 \<in> set evm_networks
   \<and> sent (snd (updatePositionLeverage (Inr ''0xfe'') (JStr ''7'') (5 / 2) client0))
       = [UpdateLeverageCall (JStr ''7'') 250]"
  using leverage_roundtrip [of 250 raw_position_7 client0 "Inr ''0xfe''" "JStr ''7''"]
  by (simp add: leverage_of_250 client0_def evm_networks_def raw_position_7_def)

section \<open>Frame of a cancellation (C10)\<close>

text \<open>
  C10, as stated, fails on the status. On the \<^verbatim>\<open>solana\<close> network the placeholder
  branch of \<^verbatim>\<open>cancelOrder\<close> returns \<^verbatim>\<open>{success: true, orderId}\<close> and touches
  nothing: order 42, stored open, is still open after the successful call.
\<close>

theorem cancelOrder_solana_counterexample:
  "Map_get (orders client_solana_42) (JStr ''42'') = Some order_42
   \<and> stored (orders client_solana_42) (JStr ''42'') ''status'' = JStr ''open''
   \<and> fst (cancelOrder (Inr ''0xc1'') (JStr ''42'') client_solana_42)
       = Inr (Some [''success'' \<mapsto> JBool True, ''orderId'' \<mapsto> JStr ''42''])
   \<and> stored (orders (snd (cancelOrder (Inr ''0xc1'') (JStr ''42'') client_solana_42))) (JStr ''42'')
        ''status'' = JStr ''open''"
  by (simp add: cancelOrder_def cancelOrder_try_def client_solana_42_facts evm_networks_def
      Map_get_def stored_def getp_def order_42_def newOrder_of_def)

text \<open>
  C10, amended. When \<^verbatim>\<open>cancelOrder\<close> of a stored order returns without an exception,
  the positions, balances and markets maps are unchanged, the orders map has the same
  keys in the same order, and every other order is unchanged. On an EVM network the
  order becomes its old record with \<open>status\<close> set to \<^verbatim>\<open>canceled\<close>: market, side, type,
  price, amount, filled, timestamp and txHash read as before. On any other network the
  orders map is unchanged, so the order keeps its status.
\<close>

theorem cancelOrder_frame:
  assumes "Map_get (orders c) orderId = Some order"
    and "cancelOrder w orderId c = (Inr r, c')"
  shows "positions c' = positions c \<and> balances c' = balances c \<and> markets c' = markets c
    \<and> map fst (orders c') = map fst (orders c)
    \<and> (\<forall>k. k \<noteq> orderId \<longrightarrow> Map_get (orders c') k = Map_get (orders c) k)
    \<and> (network c \<in> set evm_networks \<longrightarrow>
          Map_get (orders c') orderId = Some (order(''status'' \<mapsto> JStr ''canceled''))
          \<and> (\<forall>f. f \<noteq> ''status'' \<longrightarrow> stored (orders c') orderId f = stored (orders c) orderId f)
          \<and> stored (orders c') orderId ''status'' = JStr ''canceled'')
    \<and> (network c \<notin> set evm_networks \<longrightarrow> orders c' = orders c)"
proof (cases "network c \<in> set evm_networks")
  case True
  from assms(2) have w: "wallet c"
    by (auto simp: cancelOrder_def split: if_splits)
  from assms(2) w True obtain txh where txh: "w = Inr txh"
    by (cases w) (auto simp: cancelOrder_def cancelOrder_try_def split: js_error.splits)
  from assms w True txh
  have c': "c' = c\<lparr>sent := sent c @ [CancelOrderCall orderId],
                  orders := Map_set (orders c) orderId (order(''status'' \<mapsto> JStr ''canceled''))\<rparr>"
    by (auto simp: cancelOrder_def cancelOrder_try_def)
  show ?thesis
    using assms(1) True by (simp add: c' Map_get_set Map_set_fst stored_def getp_def)
next
  case False
  from assms(2) have w: "wallet c"
    by (auto simp: cancelOrder_def split: if_splits)
  from assms(2) w False have "c' = c"
    by (auto simp: cancelOrder_def cancelOrder_try_def split: if_splits)
  then show ?thesis using assms(1) False by simp
qed

text \<open>
  The amended C10 at a client on \<^verbatim>\<open>arbitrum\<close> with orders 42 and 43, cancelling 42,
  and at the \<^verbatim>\<open>solana\<close> client with order 42.
\<close>

theorem cancelOrder_frame_witness:
  "Map_get (orders client_two) (JStr ''42'') = Some order_42
   \<and> \<not> isl (fst (cancelOrder (Inr ''0xc1'') (JStr ''42'') client_two))
   \<and> network client_two \<in> set evm_networks
   \<and> markets (snd (cancelOrder (Inr ''0xc1'') (JStr ''42'') client_two)) = markets client_two
   \<and> Map_get (orders (snd (cancelOrder (Inr ''0xc1'') (JStr ''42'') client_two))) (JStr ''43'')
       = Some order_43
   \<and> stored (orders (snd (cancelOrder (Inr ''0xc1'') (JStr ''42'') client_two))) (JStr ''42'')
       ''status'' = JStr ''canceled''
   \<and> stored (orders (snd (cancelOrder (Inr ''0xc1'') (JStr ''42'') client_two))) (JStr ''42'')
       ''price'' = JStr ''1720.50''
   \<and> Map_get (orders client_solana_42) (JStr ''42'') = Some order_42
   \<and> \<not> isl (fst (cancelOrder (Inr ''0xc1'') (JStr ''42'') client_solana_42))
   \<and> network client_solana_42 \<notin> set evm_networks
   \<and> orders (snd (cancelOrder (Inr ''0xc1'') (JStr ''42'') client_solana_42)) = orders client_solana_42"
proof -
  have h: "Map_get (orders client_two) (JStr ''42'') = Some order_42"
    by (simp add: client_two_def Map_get_def)
  have n: "network client_two \<in> set evm_networks" "wallet client_two"
    by (simp_all add: client_two_def client0_def evm_networks_def)
  obtain r c' where res: "cancelOrder (Inr ''0xc1'') (JStr ''42'') client_two = (Inr r, c')"
    using n by (simp add: cancelOrder_def cancelOrder_try_def Let_def split: option.splits)
  have o43: "Map_get (orders client_two) (JStr ''43'') = Some order_43"
    by (simp add: client_two_def Map_get_def)
  have p: "stored (orders client_two) (JStr ''42'') ''price'' = JStr ''1720.50''"
    by (simp add: stored_def h order_42_def newOrder_of_def request_B_def getp_def)
  have hs: "Map_get (orders client_solana_42) (JStr ''42'') = Some order_42"
    by (simp add: client_solana_42_facts Map_get_def)
  have ns: "network client_solana_42 \<notin> set evm_networks" "wallet client_solana_42"
    by (simp_all add: client_solana_42_facts evm_networks_def)
  obtain rs cs where ress: "cancelOrder (Inr ''0xc1'') (JStr ''42'') client_solana_42 = (Inr rs, cs)"
    using ns by (simp add: cancelOrder_def cancelOrder_try_def client_solana_42_facts)
  from cancelOrder_frame [OF h res] cancelOrder_frame [OF hs ress] n ns o43 p h hs
  show ?thesis by (auto simp: res ress)
qed

end
